theory Spec2Isabelle
  imports Complex_Main "HOL-Library.Word" "HOL-Library.AList"
begin

section \<open>SparseHyperpositionEncoder (architecture/SparseDistributed.js)\<close>

text \<open>
  A pattern is the content of a \<^verbatim>\<open>Uint8Array\<close>: a list of byte values. The numbers
  of the source are IEEE doubles; they are modelled by \<^typ>\<open>real\<close>, the integers among
  them by \<^typ>\<open>nat\<close> and \<^typ>\<open>int\<close>, and the 32-bit integer of the hash by
  \<^typ>\<open>32 word\<close>.
\<close>

type_synonym pattern = "nat list"

record encoder =
  dimensions :: nat
  sparsity :: real
  activeBits :: nat
  seeds :: "nat list"
  conceptMemory :: "(string \<times> nat) list"

text \<open>
  The constructor. \<^verbatim>\<open>generateSeeds\<close> draws 100 random integers below 2147483647; the
  drawn list is a parameter here. The concept memory maps a concept to the reference of
  the stored array (an index into the heap defined further down).
\<close>

definition new_encoder :: "nat \<Rightarrow> real \<Rightarrow> nat list \<Rightarrow> encoder" where
  "new_encoder d s sds =
     \<lparr>dimensions = d, sparsity = s, activeBits = nat \<lfloor>real d * s\<rfloor>,
      seeds = sds, conceptMemory = []\<rparr>"

text \<open>
  Reading \<^verbatim>\<open>pattern[i]\<close> as a condition: a position outside the array reads
  \<^verbatim>\<open>undefined\<close>, which is falsy, and no exception is raised.
\<close>

definition truthy :: "pattern \<Rightarrow> nat \<Rightarrow> bool" where
  "truthy p i \<longleftrightarrow> i < length p \<and> p ! i \<noteq> 0"

text \<open>
  \<^verbatim>\<open>hash = ((hash << 5) - hash) + input.charCodeAt(i); hash = hash & hash\<close>:
  one round of the hash, on 32-bit integers.
\<close>

definition hashStep :: "32 word \<Rightarrow> char \<Rightarrow> 32 word" where
  "hashStep h c = (push_bit 5 h - h) + of_nat (of_char c)"

definition hashFunction :: "encoder \<Rightarrow> string \<Rightarrow> nat \<Rightarrow> nat" where
  "hashFunction enc input seed =
     (let h0 = seeds enc ! (seed mod length (seeds enc))
      in if input = [] then h0
         else nat \<bar>sint (fold (\<lambda>c h. hashStep h c) input (word_of_nat h0))\<bar>)"

text \<open>
  The array that \<^verbatim>\<open>encode\<close> builds for a concept it has not seen. A write outside a
  typed array is ignored, as \<^const>\<open>list_update\<close> does.
\<close>

definition encode_pattern :: "encoder \<Rightarrow> string \<Rightarrow> pattern" where
  "encode_pattern enc concept =
     fold (\<lambda>i p. p[hashFunction enc concept i mod dimensions enc := 1])
       [0..<activeBits enc] (replicate (dimensions enc) 0)"

text \<open>
  \<^verbatim>\<open>superposition[i] = superposition[i] || pattern[i]\<close> for every \<^verbatim>\<open>i\<close> below the
  dimension; an \<^verbatim>\<open>undefined\<close> operand is stored as 0.
\<close>

definition superpose_into :: "nat \<Rightarrow> pattern \<Rightarrow> pattern \<Rightarrow> pattern" where
  "superpose_into d acc p =
     map (\<lambda>i. if acc ! i \<noteq> 0 then acc ! i else if i < length p then p ! i else 0) [0..<d]"

definition superpose :: "encoder \<Rightarrow> pattern list \<Rightarrow> pattern" where
  "superpose enc ps =
     fold (\<lambda>p acc. superpose_into (dimensions enc) acc p) ps (replicate (dimensions enc) 0)"

record interference =
  pattern :: pattern
  strength :: real

definition findInterference :: "encoder \<Rightarrow> pattern \<Rightarrow> pattern \<Rightarrow> interference" where
  "findInterference enc pattern1 pattern2 =
     (let both = (\<lambda>i. truthy pattern1 i \<and> truthy pattern2 i);
          overlapCount = length (filter both [0..<dimensions enc])
      in \<lparr>pattern = map (\<lambda>i. if both i then 1 else 0) [0..<dimensions enc],
          strength = real overlapCount / real (activeBits enc)\<rparr>)"

definition calculateResonance :: "encoder \<Rightarrow> pattern \<Rightarrow> pattern \<Rightarrow> real" where
  "calculateResonance enc pattern1 pattern2 =
     (let union = length (filter (\<lambda>i. truthy pattern1 i \<or> truthy pattern2 i)
                           [0..<dimensions enc]);
          overlap = length (filter (\<lambda>i. truthy pattern1 i \<and> truthy pattern2 i)
                             [0..<dimensions enc])
      in if union > 0 then real overlap / real union else 0)"

text \<open>
  The remainder \<^verbatim>\<open>%\<close> of JavaScript truncates towards zero, and a typed array ignores
  a write at a negative index.
\<close>

definition js_rem :: "int \<Rightarrow> int \<Rightarrow> int" where
  "js_rem a b = (if a < 0 then - ((- a) mod b) else a mod b)"

definition set_bit_at :: "int \<Rightarrow> pattern \<Rightarrow> pattern" where
  "set_bit_at k p = (if k < 0 then p else p[nat k := 1])"

definition phase_shift :: "encoder \<Rightarrow> real \<Rightarrow> int" where
  "phase_shift enc phase = \<lfloor>(phase / (2 * pi)) * real (activeBits enc)\<rfloor>"

definition applyPhase :: "encoder \<Rightarrow> pattern \<Rightarrow> real \<Rightarrow> pattern" where
  "applyPhase enc p phase =
     (if phase = 0 then p
      else
        let shift = phase_shift enc phase;
            activeIndices = filter (truthy p) [0..<dimensions enc]
        in fold (\<lambda>i phased. set_bit_at (js_rem (int i + shift) (int (dimensions enc))) phased)
             activeIndices (replicate (dimensions enc) 0))"

text \<open>
  \<^verbatim>\<open>weightedSuperpose\<close> accumulates in a \<^verbatim>\<open>Float32Array\<close>. A pattern too short for a
  position contributes \<^verbatim>\<open>undefined * weight\<close>, that is NaN, which stays NaN and fails
  the comparison with the threshold: \<^const>\<open>None\<close> stands for it. The rounding of the sums
  to single precision is not modelled.
\<close>

definition weighted_into :: "nat \<Rightarrow> real option list \<Rightarrow> pattern \<times> real \<Rightarrow> real option list" where
  "weighted_into d acc pw =
     map (\<lambda>i. case acc ! i of
                 None \<Rightarrow> None
               | Some v \<Rightarrow> if i < length (fst pw) then Some (v + real (fst pw ! i) * snd pw)
                           else None) [0..<d]"

definition weightedSuperpose :: "encoder \<Rightarrow> (pattern \<times> real) list \<Rightarrow> pattern" where
  "weightedSuperpose enc pws =
     (let result = fold (\<lambda>pw acc. weighted_into (dimensions enc) acc pw) pws
                     (replicate (dimensions enc) (Some 0))
      in map (\<lambda>i. case result ! i of None \<Rightarrow> 0 | Some v \<Rightarrow> if v > 1 / 2 then 1 else 0)
           [0..<dimensions enc])"

subsection \<open>The arrays as objects\<close>

text \<open>
  Arrays are objects with identity. The heap lists the byte arrays allocated so far; a
  reference is a position in it, and \<^verbatim>\<open>new Uint8Array\<close> appends. The operations below
  are the methods of the class on references; the functions above compute the contents.
  The \<^verbatim>\<open>Float32Array\<close> in which \<^verbatim>\<open>weightedSuperpose\<close> accumulates is local to the
  call and is never returned or stored: it is not an array of the heap.
\<close>

type_synonym heap = "pattern list"

definition alloc :: "heap \<Rightarrow> pattern \<Rightarrow> nat \<times> heap" where
  "alloc h a = (length h, h @ [a])"

definition encode :: "encoder \<Rightarrow> heap \<Rightarrow> string \<Rightarrow> nat \<times> encoder \<times> heap" where
  "encode enc h concept =
     (case map_of (conceptMemory enc) concept of
        Some r \<Rightarrow> (r, enc, h)
      | None \<Rightarrow>
          (let (r, h') = alloc h (encode_pattern enc concept)
           in (r, enc\<lparr>conceptMemory := conceptMemory enc @ [(concept, r)]\<rparr>, h')))"

definition superpose_ref :: "encoder \<Rightarrow> heap \<Rightarrow> nat list \<Rightarrow> nat \<times> heap" where
  "superpose_ref enc h rs = alloc h (superpose enc (map (\<lambda>r. h ! r) rs))"

definition findInterference_ref :: "encoder \<Rightarrow> heap \<Rightarrow> nat \<Rightarrow> nat \<Rightarrow> (nat \<times> real) \<times> heap" where
  "findInterference_ref enc h r1 r2 =
     (let res = findInterference enc (h ! r1) (h ! r2);
          (r, h') = alloc h (pattern res)
      in ((r, strength res), h'))"

definition weightedSuperpose_ref :: "encoder \<Rightarrow> heap \<Rightarrow> (nat \<times> real) list \<Rightarrow> nat \<times> heap" where
  "weightedSuperpose_ref enc h rws =
     alloc h (weightedSuperpose enc (map (\<lambda>rw. (h ! fst rw, snd rw)) rws))"

definition applyPhase_ref :: "encoder \<Rightarrow> heap \<Rightarrow> nat \<Rightarrow> real \<Rightarrow> nat \<times> heap" where
  "applyPhase_ref enc h r phase =
     (if phase = 0 then (r, h) else alloc h (applyPhase enc (h ! r) phase))"

section \<open>HyperpositionToken (core/HyperpositionToken.js)\<close>

text \<open>
  The eight entries of \<^verbatim>\<open>this.dimensions\<close>, in the order in which the constructor
  creates them, which is the order of every \<^verbatim>\<open>for (dim in this.dimensions)\<close> loop.
\<close>

datatype dimension =
  Semantic | Temporal | Causal | Emotional | Relational | Probability | Energy | Coherence

record dimension_values =
  semantic :: real
  temporal :: real
  causal :: real
  emotional :: real
  relational :: real
  probability :: real
  energy :: real
  coherence :: real

definition dimension_names :: "dimension list" where
  "dimension_names =
     [Semantic, Temporal, Causal, Emotional, Relational, Probability, Energy, Coherence]"

fun dim_value :: "dimension_values \<Rightarrow> dimension \<Rightarrow> real" where
  "dim_value d Semantic = semantic d"
| "dim_value d Temporal = temporal d"
| "dim_value d Causal = causal d"
| "dim_value d Emotional = emotional d"
| "dim_value d Relational = relational d"
| "dim_value d Probability = probability d"
| "dim_value d Energy = energy d"
| "dim_value d Coherence = coherence d"

text \<open>The field \<^verbatim>\<open>dimensions\<close> of a token is called \<open>dims\<close> here.\<close>

record token =
  surface :: string
  universal :: string
  dims :: dimension_values

fun getResonanceWeight :: "dimension \<Rightarrow> real" where
  "getResonanceWeight Semantic = 25 / 100"
| "getResonanceWeight Temporal = 10 / 100"
| "getResonanceWeight Causal = 20 / 100"
| "getResonanceWeight Emotional = 15 / 100"
| "getResonanceWeight Relational = 10 / 100"
| "getResonanceWeight Probability = 5 / 100"
| "getResonanceWeight Energy = 10 / 100"
| "getResonanceWeight Coherence = 5 / 100"

text \<open>
  \<^verbatim>\<open>calculateDistancePenalty\<close> returns \<^verbatim>\<open>0.8 + Math.random() * 0.2\<close>; the number
  drawn is a parameter. The argument of \<^verbatim>\<open>resonanceWith\<close> is a token by its type here, so
  the error that the source throws for any other value has no counterpart.
\<close>

definition calculateDistancePenalty :: "real \<Rightarrow> real" where
  "calculateDistancePenalty rnd = 8 / 10 + rnd * (2 / 10)"

definition resonanceWith :: "real \<Rightarrow> 'a token_scheme \<Rightarrow> 'b token_scheme \<Rightarrow> real" where
  "resonanceWith rnd this other =
     (let totalResonance =
            fold (\<lambda>dim total.
                    total + (1 - \<bar>dim_value (dims this) dim - dim_value (dims other) dim\<bar>)
                            * getResonanceWeight dim)
              dimension_names 0
      in totalResonance * calculateDistancePenalty rnd)"

section \<open>EmotionalHyperpositionToken (core/EmotionalHyperposition.js)\<close>

text \<open>
  The components are a \<^verbatim>\<open>Map\<close>, which keeps insertion order: an association list,
  with \<^const>\<open>AList.update\<close> for \<^verbatim>\<open>set\<close>. A key is any value of the language;
  \<^const>\<open>None\<close> is the key \<^verbatim>\<open>null\<close>. The clock \<^verbatim>\<open>Date.now()\<close> is a parameter.
\<close>

record component =
  weight :: real
  phase :: real
  timestamp :: real

record emotional_state =
  components :: "(string option \<times> component) list"
  collapsed :: bool
  state_coherence :: real

record emotional_token = token +
  emotionalState :: emotional_state
  emotionalSpin :: int

text \<open>
  With no component the source computes \<^verbatim>\<open>0 / 0\<close>, which is NaN; the quotient of
  the model is 0 there, and nothing below is stated about that case.
\<close>

definition superposition_magnitude :: "(string option \<times> component) list \<Rightarrow> real" where
  "superposition_magnitude cs =
     (let re = fold (\<lambda>c total. total + weight (snd c) * cos (phase (snd c))) cs 0;
          im = fold (\<lambda>c total. total + weight (snd c) * sin (phase (snd c))) cs 0
      in sqrt (re\<^sup>2 + im\<^sup>2))"

definition recalculateSuperposition ::
    "'a emotional_token_scheme \<Rightarrow> 'a emotional_token_scheme" where
  "recalculateSuperposition t =
     (let magnitude = superposition_magnitude (components (emotionalState t));
          numComponents = length (components (emotionalState t));
          c = (if numComponents > 1 \<and> magnitude < 3 / 10 then 0
               else magnitude / real numComponents)
      in t\<lparr>dims := (dims t)\<lparr>emotional := magnitude\<rparr>,
           emotionalState := (emotionalState t)\<lparr>state_coherence := c\<rparr>\<rparr>)"

definition addEmotionalComponent ::
    "real \<Rightarrow> string \<Rightarrow> real \<Rightarrow> real \<Rightarrow> 'a emotional_token_scheme \<Rightarrow> 'a emotional_token_scheme" where
  "addEmotionalComponent now emotion w ph t =
     recalculateSuperposition
       (t\<lparr>emotionalState := (emotionalState t)
            \<lparr>components :=
               AList.update (Some emotion) \<lparr>weight = w, phase = ph, timestamp = now\<rparr>
                 (components (emotionalState t))\<rparr>\<rparr>)"

text \<open>The loop of \<^verbatim>\<open>collapseEmotional\<close> that looks for the dominant emotion.\<close>

definition dominant :: "(string option \<times> component) list \<Rightarrow> real \<times> string option" where
  "dominant cs =
     fold (\<lambda>c (maxWeight, dominantEmotion).
             if weight (snd c) > maxWeight then (weight (snd c), fst c)
             else (maxWeight, dominantEmotion))
       cs (0, None)"

text \<open>
  The result of \<^verbatim>\<open>collapseEmotional\<close> is \<^const>\<open>None\<close> for the bare
  \<^verbatim>\<open>return\<close> (the value \<^verbatim>\<open>undefined\<close>), and the dominant emotion otherwise.
\<close>

definition collapseEmotional ::
    "real \<Rightarrow> 'a emotional_token_scheme \<Rightarrow> string option option \<times> 'a emotional_token_scheme" where
  "collapseEmotional now t =
     (if collapsed (emotionalState t) then (None, t)
      else
        let dominantEmotion = snd (dominant (components (emotionalState t)))
        in (Some dominantEmotion,
            t\<lparr>emotionalState := (emotionalState t)
                 \<lparr>components := [(dominantEmotion, \<lparr>weight = 1, phase = 0, timestamp = now\<rparr>)],
                  collapsed := True\<rparr>,
              dims := (dims t)\<lparr>emotional := 1\<rparr>\<rparr>))"

section \<open>BiHamiltonianToken (core/BiHamiltonianStability.js)\<close>

record derivatives =
  position :: real
  velocity :: real
  acceleration :: real
  jerk :: real
  snap :: real

record bihamiltonian_token = emotional_token +
  H1_coherence :: real
  H2_structure :: real
  derivatives :: derivatives
  divergenceThreshold :: real

definition calculateCoherenceEnergy :: "'a emotional_token_scheme \<Rightarrow> real" where
  "calculateCoherenceEnergy t =
     (let c = fold (\<lambda>dim total. total + dim_value (dims t) dim * dim_value (dims t) dim)
                dimension_names 0
      in sqrt (c + state_coherence (emotionalState t)))"

text \<open>The pairs \<^verbatim>\<open>i < j\<close> of positions below \<open>n\<close>, in the order of the nested loops.\<close>

definition index_pairs :: "nat \<Rightarrow> (nat \<times> nat) list" where
  "index_pairs n = concat (map (\<lambda>i. map (\<lambda>j. (i, j)) [Suc i..<n]) [0..<n - 1])"

definition checkEmotionalStructure :: "'a emotional_token_scheme \<Rightarrow> real" where
  "checkEmotionalStructure t =
     (let cs = map snd (components (emotionalState t));
          oppositionCount =
            length (filter (\<lambda>(i, j). \<bar>\<bar>phase (cs ! i) - phase (cs ! j)\<bar> - pi\<bar> < 1 / 10)
                      (index_pairs (length cs)))
      in 1 / (1 + real oppositionCount))"

definition calculateStructuralEnergy :: "'a emotional_token_scheme \<Rightarrow> real" where
  "calculateStructuralEnergy t =
     (let vals = map (dim_value (dims t)) dimension_names;
          mean = sum_list vals / real (length vals);
          variance = sum_list (map (\<lambda>v. (v - mean)\<^sup>2) vals) / real (length vals);
          structure = 1 / (1 + variance)
      in if length (components (emotionalState t)) > 0
         then (structure + checkEmotionalStructure t) / 2
         else structure)"

definition updateDerivatives :: "'a bihamiltonian_token_scheme \<Rightarrow> 'a bihamiltonian_token_scheme" where
  "updateDerivatives t =
     (let dt = 1 / 10;
          d = derivatives t;
          pos = (H1_coherence t + H2_structure t) / 2;
          vel = (pos - position d) / dt;
          acc = (vel - velocity d) / dt;
          jrk = (acc - acceleration d) / dt;
          snp = (jrk - jerk d) / dt
      in t\<lparr>derivatives :=
             \<lparr>position = pos, velocity = vel, acceleration = acc, jerk = jrk, snap = snp\<rparr>\<rparr>)"

definition updateHamiltonians :: "'a bihamiltonian_token_scheme \<Rightarrow> 'a bihamiltonian_token_scheme" where
  "updateHamiltonians t =
     updateDerivatives
       (t\<lparr>H1_coherence := calculateCoherenceEnergy t,
          H2_structure := calculateStructuralEnergy t\<rparr>)"

record divergence_report =
  divergence :: real
  H1 :: real
  H2 :: real
  recommendation :: string

text \<open>
  \<^verbatim>\<open>checkDivergence\<close> returns \<^verbatim>\<open>null\<close> or a report, whose field \<^verbatim>\<open>warning\<close>
  is always \<^verbatim>\<open>'GHOST_STATE_EMERGING'\<close>.
\<close>

definition checkDivergence :: "'a bihamiltonian_token_scheme \<Rightarrow> divergence_report option" where
  "checkDivergence t =
     (let dv = \<bar>H1_coherence t - H2_structure t\<bar>
      in if dv > divergenceThreshold t
         then Some \<lparr>divergence = dv, H1 = H1_coherence t, H2 = H2_structure t,
                    recommendation = (if H1_coherence t > H2_structure t
                                      then ''Strengthen structure''
                                      else ''Increase coherence'')\<rparr>
         else None)"

definition isStable :: "'a bihamiltonian_token_scheme \<Rightarrow> bool" where
  "isStable t =
     (let dv = \<bar>H1_coherence t - H2_structure t\<bar>;
          highJerk = \<bar>jerk (derivatives t)\<bar> > 1;
          highSnap = \<bar>snap (derivatives t)\<bar> > 2
      in dv < divergenceThreshold t \<and> \<not> highJerk \<and> \<not> highSnap)"

section \<open>SkipTraceEngine (core/SkipTraceEngine.js)\<close>

text \<open>
  Tokens are objects: \<^verbatim>\<open>currentPath.includes(toToken)\<close> compares identities. A token
  is therefore a reference (a natural number), and the functions take the store \<open>tok\<close>
  that gives the object behind each reference. \<^verbatim>\<open>this.tokens\<close> and the path of a trace
  are lists of references.
\<close>

record score_weights =
  causal_weight :: real
  emotional_weight :: real
  semantic_weight :: real
  temporal_weight :: real

text \<open>The field \<^verbatim>\<open>energy\<close> of the engine is \<open>total_energy\<close> here.\<close>

record engine =
  tokens :: "nat list"
  threshold :: real
  total_energy :: real
  maxTraceLength :: nat
  branchingFactor :: nat
  weights :: score_weights

definition new_engine :: "nat list \<Rightarrow> real \<Rightarrow> engine" where
  "new_engine toks thr =
     \<lparr>tokens = toks, threshold = thr, total_energy = 1, maxTraceLength = 10,
      branchingFactor = 3,
      weights = \<lparr>causal_weight = 3 / 10, emotional_weight = 25 / 100,
                 semantic_weight = 25 / 100, temporal_weight = 2 / 10\<rparr>\<rparr>"

text \<open>
  The fields \<^verbatim>\<open>energy\<close> and \<^verbatim>\<open>coherence\<close> of a trace are \<open>spent\<close> and \<open>score\<close>
  here; the coherence is absent until \<^verbatim>\<open>generateTraces\<close> assigns it.
\<close>

record trace =
  path :: "nat list"
  spent :: real
  complete :: bool
  score :: "real option"

definition causalStrength :: "'a token_scheme \<Rightarrow> 'a token_scheme \<Rightarrow> real" where
  "causalStrength from to =
     (let causalProduct = causal (dims from) * causal (dims to);
          causalFlow = (if causal (dims to) > causal (dims from) then 12 / 10 else 8 / 10)
      in min 1 (causalProduct * causalFlow))"

definition emotionalResonance :: "'a token_scheme \<Rightarrow> 'a token_scheme \<Rightarrow> real" where
  "emotionalResonance from to =
     (let emotionalDiff = \<bar>emotional (dims from) - emotional (dims to)\<bar>;
          resonance = 1 - emotionalDiff;
          emotionalIntensity = (emotional (dims from) + emotional (dims to)) / 2
      in resonance * (1 / 2 + emotionalIntensity * (1 / 2)))"

definition semanticDistance :: "'a token_scheme \<Rightarrow> 'a token_scheme \<Rightarrow> real" where
  "semanticDistance from to = \<bar>semantic (dims from) - semantic (dims to)\<bar>"

definition temporalFlow :: "'a token_scheme \<Rightarrow> 'a token_scheme \<Rightarrow> real" where
  "temporalFlow from to =
     (let temporalDiff = temporal (dims to) - temporal (dims from)
      in if temporalDiff > 0 then min 1 (temporalDiff * 2)
         else max 0 (1 + temporalDiff * (1 / 2)))"

definition skipScore :: "engine \<Rightarrow> 'a token_scheme \<Rightarrow> 'a token_scheme \<Rightarrow> real" where
  "skipScore eng from to =
     causal_weight (weights eng) * causalStrength from to +
     emotional_weight (weights eng) * emotionalResonance from to +
     semantic_weight (weights eng) * (1 - semanticDistance from to) +
     temporal_weight (weights eng) * temporalFlow from to"

definition calculateEnergyCost :: "'a token_scheme \<Rightarrow> 'a token_scheme \<Rightarrow> real" where
  "calculateEnergyCost from to =
     (let distance = semanticDistance from to;
          energyFactor = (energy (dims from) + energy (dims to)) / 2
      in distance * (1 - energyFactor * (1 / 2)))"

text \<open>
  \<^verbatim>\<open>Array.prototype.sort\<close> is stable, and so is \<^const>\<open>sort_key\<close>; sorting in
  descending order of a number is sorting by its negation.
\<close>

definition findAnchors :: "engine \<Rightarrow> (nat \<Rightarrow> 'a token_scheme) \<Rightarrow> nat list" where
  "findAnchors eng tok =
     (let sorted = sort_key (\<lambda>r. - energy (dims (tok r))) (tokens eng);
          anchorCount = max 1 (nat \<lceil>real (length (tokens eng)) * (3 / 10)\<rceil>)
      in take anchorCount sorted)"

definition findSkipCandidates ::
    "engine \<Rightarrow> (nat \<Rightarrow> 'a token_scheme) \<Rightarrow> nat \<Rightarrow> nat list \<Rightarrow> (nat \<times> real) list" where
  "findSkipCandidates eng tok fromToken currentPath =
     (let candidates =
            map (\<lambda>r. (r, skipScore eng (tok fromToken) (tok r)))
              (filter (\<lambda>r. r \<notin> set currentPath \<and>
                           skipScore eng (tok fromToken) (tok r) > threshold eng)
                 (tokens eng))
      in sort_key (\<lambda>c. - snd c) candidates)"

function traceFromToken ::
    "engine \<Rightarrow> (nat \<Rightarrow> 'a token_scheme) \<Rightarrow> nat \<Rightarrow> nat list \<Rightarrow> real \<Rightarrow> trace list" where
  "traceFromToken eng tok currentToken pth remainingEnergy =
     (if length pth \<ge> maxTraceLength eng \<or> remainingEnergy < 1 / 10
      then [\<lparr>path = pth @ [currentToken], spent = total_energy eng - remainingEnergy,
              complete = True, score = None\<rparr>]
      else if findSkipCandidates eng tok currentToken (pth @ [currentToken]) = []
      then [\<lparr>path = pth @ [currentToken], spent = total_energy eng - remainingEnergy,
              complete = False, score = None\<rparr>]
      else concat
             (map (\<lambda>candidate.
                     traceFromToken eng tok (fst candidate) (pth @ [currentToken])
                       (remainingEnergy
                          - calculateEnergyCost (tok currentToken) (tok (fst candidate))))
                (take (min (branchingFactor eng)
                         (length (findSkipCandidates eng tok currentToken (pth @ [currentToken]))))
                   (findSkipCandidates eng tok currentToken (pth @ [currentToken])))))"
  by pat_completeness auto
termination
  by (relation "measure (\<lambda>(eng, tok, cur, pth, rem). maxTraceLength eng - length pth)") auto

declare traceFromToken.simps [simp del]

text \<open>\<^verbatim>\<open>Array.prototype.join\<close> on strings.\<close>

fun join :: "string \<Rightarrow> string list \<Rightarrow> string" where
  "join sep [] = []"
| "join sep [x] = x"
| "join sep (x # y # ys) = x @ sep @ join sep (y # ys)"

definition pruneTraces :: "(nat \<Rightarrow> 'a token_scheme) \<Rightarrow> trace list \<Rightarrow> trace list" where
  "pruneTraces tok traces =
     fst (fold (\<lambda>tr (pruned, seenPatterns).
                  let pat = join ''-'' (map (\<lambda>r. universal (tok r)) (path tr))
                  in if pat \<in> set seenPatterns then (pruned, seenPatterns)
                     else if length (path tr) < 3 then (pruned, seenPatterns)
                     else (pruned @ [tr], seenPatterns @ [pat]))
            traces ([], []))"

text \<open>
  \<^verbatim>\<open>calculateTraceCoherence\<close>. Every call of \<^verbatim>\<open>resonanceWith\<close> draws one random
  number; \<open>rnd k\<close> is the number drawn by the call number \<open>k\<close> of this invocation.
\<close>

definition calculateTraceCoherence ::
    "engine \<Rightarrow> (nat \<Rightarrow> 'a token_scheme) \<Rightarrow> (nat \<Rightarrow> real) \<Rightarrow> trace \<Rightarrow> real" where
  "calculateTraceCoherence eng tok rnd tr =
     (let n = length (path tr)
      in if n < 2 then 0
         else
           let (totalResonance, connections) =
                 fold (\<lambda>(i, j) (total, k).
                         (total + resonanceWith (rnd k) (tok (path tr ! i)) (tok (path tr ! j)),
                          Suc k))
                   (index_pairs n) (0, 0);
               coh = (if connections > 0 then totalResonance / real connections else 0);
               energyBonus = (1 - spent tr / total_energy eng) * (2 / 10)
           in min 1 (coh + energyBonus))"

text \<open>
  The traces found and pruned, before they are scored: the first half of
  \<^verbatim>\<open>generateTraces\<close>.
\<close>

definition searchTraces :: "engine \<Rightarrow> (nat \<Rightarrow> 'a token_scheme) \<Rightarrow> trace list" where
  "searchTraces eng tok =
     pruneTraces tok
       (concat (map (\<lambda>anchor. traceFromToken eng tok anchor [] (total_energy eng))
                  (findAnchors eng tok)))"

text \<open>
  Scoring the traces in turn; the random numbers a trace uses are those after the ones
  used by the traces before it.
\<close>

fun scoreTraces ::
    "engine \<Rightarrow> (nat \<Rightarrow> 'a token_scheme) \<Rightarrow> (nat \<Rightarrow> real) \<Rightarrow> trace list \<Rightarrow> trace list" where
  "scoreTraces eng tok rnd [] = []"
| "scoreTraces eng tok rnd (tr # trs) =
     tr\<lparr>score := Some (calculateTraceCoherence eng tok rnd tr)\<rparr>
       # scoreTraces eng tok (\<lambda>k. rnd (k + length (index_pairs (length (path tr))))) trs"

definition generateTraces ::
    "engine \<Rightarrow> (nat \<Rightarrow> 'a token_scheme) \<Rightarrow> (nat \<Rightarrow> real) \<Rightarrow> trace list" where
  "generateTraces eng tok rnd =
     sort_key (\<lambda>tr. - (case score tr of None \<Rightarrow> 0 | Some c \<Rightarrow> c))
       (scoreTraces eng tok rnd (searchTraces eng tok))"

section \<open>Constructors\<close>

text \<open>
  \<^verbatim>\<open>normalizeDimensions\<close> divides every dimension by their sum when the sum is positive.
  The constructors draw the eight dimensions at random; the values drawn are the
  parameter \<open>d\<close>.
\<close>

definition normalizeDimensions :: "dimension_values \<Rightarrow> dimension_values" where
  "normalizeDimensions d =
     (let total = fold (\<lambda>dim acc. acc + dim_value d dim) dimension_names 0
      in if total > 0
         then \<lparr>semantic = semantic d / total, temporal = temporal d / total,
               causal = causal d / total, emotional = emotional d / total,
               relational = relational d / total, probability = probability d / total,
               energy = energy d / total, coherence = coherence d / total\<rparr>
         else d)"

definition new_token :: "string \<Rightarrow> string \<Rightarrow> dimension_values \<Rightarrow> token" where
  "new_token s u d = \<lparr>surface = s, universal = u, dims = normalizeDimensions d\<rparr>"

definition new_emotional_token :: "string \<Rightarrow> string \<Rightarrow> dimension_values \<Rightarrow> emotional_token" where
  "new_emotional_token s u d =
     \<lparr>surface = s, universal = u, dims = normalizeDimensions d,
      emotionalState = \<lparr>components = [], collapsed = False, state_coherence = 0\<rparr>,
      emotionalSpin = 0\<rparr>"

definition new_bihamiltonian_token ::
    "string \<Rightarrow> string \<Rightarrow> dimension_values \<Rightarrow> bihamiltonian_token" where
  "new_bihamiltonian_token s u d =
     updateHamiltonians
       \<lparr>surface = s, universal = u, dims = normalizeDimensions d,
        emotionalState = \<lparr>components = [], collapsed = False, state_coherence = 0\<rparr>,
        emotionalSpin = 0, H1_coherence = 0, H2_structure = 0,
        derivatives = \<lparr>position = 0, velocity = 0, acceleration = 0, jerk = 0, snap = 0\<rparr>,
        divergenceThreshold = 3 / 10\<rparr>"

section \<open>Notions of the specification\<close>

text \<open>The number of active bits of a pattern.\<close>

definition activeCount :: "pattern \<Rightarrow> nat" where
  "activeCount p = length (filter (\<lambda>v. v \<noteq> 0) p)"

text \<open>
  A pattern brought to the dimension of the encoder: cut after \<open>dimensions enc\<close>
  positions, or filled up with inactive positions.
\<close>

definition fitted :: "encoder \<Rightarrow> pattern \<Rightarrow> pattern" where
  "fitted enc p = take (dimensions enc) p @ replicate (dimensions enc - length p) 0"

text \<open>
  The resonance of two feature vectors as the specification writes it: the sum over
  the dimensions of \<open>(1 - |a - b|)\<close> times the weight of the dimension.
\<close>

definition spec_resonance :: "'a token_scheme \<Rightarrow> 'b token_scheme \<Rightarrow> real" where
  "spec_resonance a b =
     (\<Sum>dim\<leftarrow>dimension_names.
        (1 - \<bar>dim_value (dims a) dim - dim_value (dims b) dim\<bar>) * getResonanceWeight dim)"

text \<open>Every reference of the concept memory is an array of the heap.\<close>

definition refs_valid :: "encoder \<Rightarrow> heap \<Rightarrow> bool" where
  "refs_valid enc h = list_all (\<lambda>cr. snd cr < length h) (conceptMemory enc)"

section \<open>Concrete inputs\<close>

text \<open>A list of 100 seeds, and the encoder of the test suite built on it.\<close>

definition test_seeds :: "nat list" where
  "test_seeds = map (\<lambda>i. 7919 * i + 104729) [0..<100]"

definition test_encoder :: encoder where
  "test_encoder = new_encoder 10000 (2 / 100) test_seeds"

definition small_encoder :: "nat \<Rightarrow> encoder" where
  "small_encoder d = new_encoder d (1 / 2) test_seeds"

text \<open>
  Eight random draws of 1/2: the constructor normalises them to 1/8 each.
\<close>

definition half_dims :: dimension_values where
  "half_dims = \<lparr>semantic = 1 / 2, temporal = 1 / 2, causal = 1 / 2, emotional = 1 / 2,
                relational = 1 / 2, probability = 1 / 2, energy = 1 / 2, coherence = 1 / 2\<rparr>"

text \<open>Eleven tokens with the same dimensions, and the engine on them.\<close>

definition plain_token :: token where
  "plain_token = new_token ''word'' ''ENTITY'' half_dims"

definition plain_store :: "nat \<Rightarrow> token" where
  "plain_store r = plain_token"

definition engine11 :: engine where
  "engine11 = new_engine [0..<11] (3 / 10)"

text \<open>
  Three tokens whose dimensions sum to 1, further apart in meaning and lower in energy
  from one to the next, and the engine on them.
\<close>

definition three_store :: "nat \<Rightarrow> token" where
  "three_store r =
     \<lparr>surface = ''word'', universal = ''ENTITY'',
      dims = \<lparr>semantic = (1 + real r) / 10, temporal = 1 / 10, causal = 1 / 10,
              emotional = 1 / 10, relational = 1 / 10, probability = 1 / 10,
              energy = (3 - real r) / 10, coherence = 1 / 10\<rparr>\<rparr>"

definition engine3 :: engine where
  "engine3 = new_engine [0, 1, 2] (3 / 10)"

text \<open>A new token whose energies are then set equal and whose jerk is set to 1.\<close>

definition edge_token :: bihamiltonian_token where
  "edge_token =
     (new_bihamiltonian_token ''edge'' ''STATE'' half_dims)
       \<lparr>H1_coherence := 1 / 2, H2_structure := 1 / 2,
        derivatives :=
          \<lparr>position = 1 / 2, velocity = 0, acceleration = 0, jerk = 1, snap = 0\<rparr>\<rparr>"

text \<open>A new token that receives two emotions of weight 1/2 in phase.\<close>

definition fresh_token :: bihamiltonian_token where
  "fresh_token = new_bihamiltonian_token ''birthday'' ''ENTITY'' half_dims"

definition glad_token :: bihamiltonian_token where
  "glad_token =
     updateHamiltonians
       (addEmotionalComponent 2 ''hope'' (1 / 2) 0
          (addEmotionalComponent 1 ''joy'' (1 / 2) 0 fresh_token))"

text \<open>A new token whose only emotion has weight 0.\<close>

definition neutral_token :: emotional_token where
  "neutral_token =
     addEmotionalComponent 1000 ''neutral'' 0 0 (new_emotional_token ''calm'' ''STATE'' half_dims)"

text \<open>A new token with the three emotions of the demonstration.\<close>

definition mixed_token :: emotional_token where
  "mixed_token =
     addEmotionalComponent 3 ''sadness'' (3 / 10) pi
       (addEmotionalComponent 2 ''nostalgia'' (4 / 10) (pi / 2)
          (addEmotionalComponent 1 ''joy'' (6 / 10) 0
             (new_emotional_token ''birthday'' ''ENTITY'' half_dims)))"

section \<open>Properties of the encoder\<close>

subsection \<open>Counting active positions\<close>

lemma length_filter_upt_card: "length (filter P [0..<d]) = card {i. i < d \<and> P i}"
proof -
  have "distinct (filter P [0..<d])" by simp
  then have "card (set (filter P [0..<d])) = length (filter P [0..<d])"
    by (rule distinct_card)
  moreover have "set (filter P [0..<d]) = {i. i < d \<and> P i}" by auto
  ultimately show ?thesis by metis
qed

lemma activeCount_card: "activeCount p = card {i. truthy p i}"
proof -
  have "length (filter (\<lambda>v. v \<noteq> 0) p) = card {i. i < length p \<and> p ! i \<noteq> 0}"
    by (rule length_filter_conv_card)
  then show ?thesis by (simp add: activeCount_def truthy_def)
qed

lemma fold_set_length: "length (fold (\<lambda>i p. p[f i := v]) js p) = length p"
  by (induction js arbitrary: p) auto

lemma fold_set_nth:
  "j < length p \<Longrightarrow>
   fold (\<lambda>i p. p[f i := v]) js p ! j = (if j \<in> f ` set js then v else p ! j)"
proof (induction js arbitrary: p)
  case Nil
  then show ?case by simp
next
  case (Cons a js)
  then show ?case by (auto simp: nth_list_update)
qed

lemma truthy_fold_set:
  "truthy (fold (\<lambda>i p. p[f i := Suc 0]) js (replicate d 0)) j \<longleftrightarrow> j < d \<and> j \<in> f ` set js"
  by (auto simp: truthy_def fold_set_length fold_set_nth split: if_splits)

subsection \<open>Encoding and interference\<close>

text \<open>
  The hash of a concept for the bit number \<open>i\<close> depends on \<open>i\<close> only through the seed
  \<open>seeds[i % seeds.length]\<close>: bit \<open>i\<close> and bit \<open>i + seeds.length\<close> fall on the same
  position.
\<close>

lemma hashFunction_periodic:
  "hashFunction enc c i = hashFunction enc c (i mod length (seeds enc))"
  by (simp add: hashFunction_def)

lemma truthy_encode_pattern:
  "truthy (encode_pattern enc c) j \<longleftrightarrow>
     j < dimensions enc \<and>
     j \<in> (\<lambda>i. hashFunction enc c i mod dimensions enc) ` {0..<activeBits enc}"
  unfolding encode_pattern_def
  using truthy_fold_set[of "\<lambda>i. hashFunction enc c i mod dimensions enc"
      "[0..<activeBits enc]" "dimensions enc" j]
  by simp

lemma encode_pattern_active_le:
  assumes "0 < length (seeds enc)"
  shows "card {j. j < dimensions enc \<and> truthy (encode_pattern enc c) j} \<le> length (seeds enc)"
proof -
  let ?n = "length (seeds enc)"
  let ?f = "\<lambda>i. hashFunction enc c i mod dimensions enc"
  have "{j. j < dimensions enc \<and> truthy (encode_pattern enc c) j} \<subseteq> ?f ` {0..<?n}"
  proof
    fix j assume "j \<in> {j. j < dimensions enc \<and> truthy (encode_pattern enc c) j}"
    then obtain i where i: "j = ?f i" by (auto simp: truthy_encode_pattern)
    have "?f i = ?f (i mod ?n)" using hashFunction_periodic[of enc c i] by simp
    moreover have "i mod ?n \<in> {0..<?n}" using assms by simp
    ultimately show "j \<in> ?f ` {0..<?n}" using i by blast
  qed
  then have "card {j. j < dimensions enc \<and> truthy (encode_pattern enc c) j}
               \<le> card (?f ` {0..<?n})"
    by (intro card_mono) auto
  also have "\<dots> \<le> card {0..<?n}" by (rule card_image_le) simp
  finally show ?thesis by simp
qed

lemma strength_self:
  "strength (findInterference enc p p) =
     real (card {j. j < dimensions enc \<and> truthy p j}) / real (activeBits enc)"
  by (simp add: findInterference_def Let_def length_filter_upt_card)

lemma strength_disjoint:
  "\<forall>i<dimensions enc. \<not> (truthy p i \<and> truthy q i) \<Longrightarrow> strength (findInterference enc p q) = 0"
  by (simp add: findInterference_def Let_def filter_empty_conv[THEN iffD2])

text \<open>
  Claim C1. The strength that \<^verbatim>\<open>findInterference\<close> returns is the number of common
  active positions divided by \<open>activeBits\<close>; the claim is that a pattern returned by
  \<^verbatim>\<open>encode\<close>, interfered with itself, gives exactly 1. The encoder has 100 seeds, so a
  pattern it encodes has at most 100 active positions, and as soon as \<open>activeBits\<close>
  exceeds 100 the strength of such a pattern with itself is at most \<open>100 / activeBits\<close>,
  which is below 1. The encoder of the test suite has 200 active bits: the strength
  there is at most 1/2, where the test \<^emph>\<open>returns high interference for identical
  patterns\<close> expects 1.
\<close>

theorem encode_self_interference_below_one:
  assumes "length (seeds enc) = 100" and "100 < activeBits enc"
  shows "strength (findInterference enc (encode_pattern enc c) (encode_pattern enc c))
           \<le> 100 / real (activeBits enc) \<and>
         strength (findInterference enc (encode_pattern enc c) (encode_pattern enc c)) < 1"
proof -
  let ?k = "card {j. j < dimensions enc \<and> truthy (encode_pattern enc c) j}"
  have k: "?k \<le> 100" using encode_pattern_active_le[of enc c] assms(1) by simp
  have pos: "0 < real (activeBits enc)" using assms(2) by simp
  have "real ?k / real (activeBits enc) \<le> 100 / real (activeBits enc)"
    using k pos by (simp add: divide_right_mono)
  moreover have "100 / real (activeBits enc) < 1" using assms(2) by simp
  ultimately show ?thesis by (simp add: strength_self)
qed

theorem encode_self_interference_witness:
  "length (seeds test_encoder) = 100 \<and> activeBits test_encoder = 200 \<and>
   strength (findInterference test_encoder (encode_pattern test_encoder ''identical'')
               (encode_pattern test_encoder ''identical'')) \<le> 1 / 2"
  using encode_self_interference_below_one[of test_encoder "''identical''"]
  by (simp add: test_encoder_def new_encoder_def test_seeds_def)

subsection \<open>Resonance\<close>

lemma overlap_le_union:
  "length (filter (\<lambda>i. P i \<and> Q i) xs) \<le> length (filter (\<lambda>i. P i \<or> Q i) xs)"
  by (induction xs) auto

lemma resonance_bounds: "0 \<le> calculateResonance enc a b \<and> calculateResonance enc a b \<le> 1"
  using overlap_le_union[of "truthy a" "truthy b" "[0..<dimensions enc]"]
  by (simp add: calculateResonance_def Let_def)

lemma resonance_sym: "calculateResonance enc a b = calculateResonance enc b a"
  by (simp add: calculateResonance_def Let_def conj_commute disj_commute)

lemma resonance_self:
  "calculateResonance enc a a = (if \<exists>i<dimensions enc. truthy a i then 1 else 0)"
proof -
  have "length (filter (truthy a) [0..<dimensions enc]) > 0 \<longleftrightarrow> (\<exists>i<dimensions enc. truthy a i)"
    by (auto simp: length_filter_upt_card card_gt_0_iff)
  then show ?thesis by (auto simp: calculateResonance_def Let_def)
qed

lemma resonance_empty:
  assumes "\<not> (\<exists>i<dimensions enc. truthy a i)" "\<not> (\<exists>i<dimensions enc. truthy b i)"
  shows "calculateResonance enc a b = 0"
proof -
  have "filter (\<lambda>i. truthy a i \<or> truthy b i) [0..<dimensions enc] = []"
    using assms by (auto simp: filter_empty_conv)
  then show ?thesis by (simp add: calculateResonance_def Let_def)
qed

text \<open>
  Claim C3, as stated: the resonance of two patterns lies between 0 and 1 and is
  symmetric, the resonance of every pattern with itself is 1, and the resonance of two
  all-zero patterns is 0. The last two parts contradict each other on the all-zero
  pattern, and the code returns 0 there: the guard \<^verbatim>\<open>union > 0 ? ... : 0\<close>.
\<close>

theorem resonance_self_counterexample:
  "calculateResonance (small_encoder 4) [0, 0, 0, 0] [0, 0, 0, 0] \<noteq> 1"
  by (simp add: calculateResonance_def small_encoder_def new_encoder_def truthy_def Let_def
      upt_rec)

text \<open>
  Claim C3, amended: the resonance of two patterns lies between 0 and 1 and is
  symmetric; the resonance of a pattern with itself is 1 when the pattern has an active
  position below the dimension; and it is 0 when neither pattern has one.
\<close>

theorem resonance_properties:
  "0 \<le> calculateResonance enc a b \<and> calculateResonance enc a b \<le> 1 \<and>
   calculateResonance enc a b = calculateResonance enc b a \<and>
   ((\<exists>i<dimensions enc. truthy a i) \<longrightarrow> calculateResonance enc a a = 1) \<and>
   ((\<forall>i<dimensions enc. \<not> truthy a i \<and> \<not> truthy b i) \<longrightarrow> calculateResonance enc a b = 0)"
  using resonance_bounds[of enc a b] resonance_sym[of enc a b] resonance_self[of enc a]
    resonance_empty[of enc a b] by auto

theorem resonance_properties_witness:
  "calculateResonance (small_encoder 5) [1, 0, 1, 0, 1] [1, 0, 0, 1, 1] = 1 / 2 \<and>
   calculateResonance (small_encoder 5) [1, 0, 0, 1, 1] [1, 0, 1, 0, 1] = 1 / 2 \<and>
   calculateResonance (small_encoder 5) [1, 0, 1, 0, 1] [1, 0, 1, 0, 1] = 1 \<and>
   calculateResonance (small_encoder 5) [0, 0, 0, 0, 0] [0, 0, 0, 0, 0] = 0"
proof -
  have d: "dimensions (small_encoder 5) = 5" by (simp add: small_encoder_def new_encoder_def)
  have act: "\<exists>i<dimensions (small_encoder 5). truthy [1, 0, 1, 0, 1] i"
    unfolding d by (rule exI[of _ 0]) (simp add: truthy_def)
  have none: "\<forall>i<dimensions (small_encoder 5).
      \<not> truthy [0, 0, 0, 0, 0] i \<and> \<not> truthy [0, 0, 0, 0, 0] i"
    by (auto simp: truthy_def nth_Cons split: nat.splits)
  have v: "calculateResonance (small_encoder 5) [1, 0, 1, 0, 1] [1, 0, 0, 1, 1] = 1 / 2"
    by (simp add: calculateResonance_def d truthy_def Let_def upt_rec)
  from resonance_properties[of "small_encoder 5" "[1, 0, 1, 0, 1]" "[1, 0, 0, 1, 1]"]
    resonance_properties[of "small_encoder 5" "[0, 0, 0, 0, 0]" "[0, 0, 0, 0, 0]"]
    act none v
  show ?thesis by simp
qed

subsection \<open>Patterns of another length\<close>

lemma truthy_fitted: "i < dimensions enc \<Longrightarrow> truthy (fitted enc p) i = truthy p i"
  by (auto simp: truthy_def fitted_def nth_append)

lemma filter_upt_cong: "(\<And>i. i < d \<Longrightarrow> P i = Q i) \<Longrightarrow> filter P [0..<d] = filter Q [0..<d]"
  by (rule filter_cong) auto

lemma resonance_fitted:
  "calculateResonance enc a b = calculateResonance enc (fitted enc a) (fitted enc b)"
proof -
  have 1: "filter (\<lambda>i. truthy a i \<or> truthy b i) [0..<dimensions enc] =
        filter (\<lambda>i. truthy (fitted enc a) i \<or> truthy (fitted enc b) i) [0..<dimensions enc]"
    by (rule filter_upt_cong) (simp add: truthy_fitted)
  have 2: "filter (\<lambda>i. truthy a i \<and> truthy b i) [0..<dimensions enc] =
        filter (\<lambda>i. truthy (fitted enc a) i \<and> truthy (fitted enc b) i) [0..<dimensions enc]"
    by (rule filter_upt_cong) (simp add: truthy_fitted)
  show ?thesis unfolding calculateResonance_def Let_def 1 2 ..
qed

lemma interference_fitted:
  "findInterference enc a b = findInterference enc (fitted enc a) (fitted enc b)"
proof -
  have 2: "filter (\<lambda>i. truthy a i \<and> truthy b i) [0..<dimensions enc] =
        filter (\<lambda>i. truthy (fitted enc a) i \<and> truthy (fitted enc b) i) [0..<dimensions enc]"
    by (rule filter_upt_cong) (simp add: truthy_fitted)
  have 3: "map (\<lambda>i. if truthy a i \<and> truthy b i then 1 else 0) [0..<dimensions enc] =
        map (\<lambda>i. if truthy (fitted enc a) i \<and> truthy (fitted enc b) i then 1 else (0::nat))
          [0..<dimensions enc]"
    by (rule map_cong) (simp_all add: truthy_fitted)
  show ?thesis unfolding findInterference_def Let_def 2 3 ..
qed

lemma superpose_into_fitted:
  "superpose_into (dimensions enc) acc p = superpose_into (dimensions enc) acc (fitted enc p)"
  unfolding superpose_into_def
  by (rule map_cong) (auto simp: fitted_def nth_append)

lemma superpose_fitted: "superpose enc ps = superpose enc (map (fitted enc) ps)"
proof -
  have "fold (\<lambda>p acc. superpose_into (dimensions enc) acc p) ps acc =
        fold (\<lambda>p acc. superpose_into (dimensions enc) acc p) (map (fitted enc) ps) acc" for acc
    by (induction ps arbitrary: acc) (simp_all add: superpose_into_fitted[symmetric])
  then show ?thesis by (simp add: superpose_def)
qed

text \<open>
  Claim C5, as stated: on two patterns of different lengths the operations fail with a
  size-mismatch error. The source has no check of the lengths and raises nothing: on
  an encoder of dimension 2, the patterns \<open>[1, 1]\<close> and \<open>[1]\<close> give the resonance 1/2,
  the superposition \<open>[1, 1]\<close> and the interference \<open>[1, 0]\<close> of strength 1.
\<close>

theorem size_mismatch_counterexample:
  "length [1, 1::nat] \<noteq> length [1::nat] \<and>
   calculateResonance (small_encoder 2) [1, 1] [1] = 1 / 2 \<and>
   superpose (small_encoder 2) [[1, 1], [1]] = [1, 1] \<and>
   pattern (findInterference (small_encoder 2) [1, 1] [1]) = [1, 0] \<and>
   strength (findInterference (small_encoder 2) [1, 1] [1]) = 1"
  by (simp add: calculateResonance_def superpose_def superpose_into_def findInterference_def
      small_encoder_def new_encoder_def truthy_def Let_def upt_rec)

text \<open>
  Claim C5, amended: the pattern operations never fail on patterns of another length
  than the dimension; they read a position that a pattern lacks as inactive and ignore
  the positions from the dimension onwards, so that their result is the one on the
  patterns cut or filled up to the dimension.
\<close>

theorem size_mismatch_is_padding:
  "calculateResonance enc a b = calculateResonance enc (fitted enc a) (fitted enc b) \<and>
   superpose enc ps = superpose enc (map (fitted enc) ps) \<and>
   findInterference enc a b = findInterference enc (fitted enc a) (fitted enc b)"
  using resonance_fitted superpose_fitted interference_fitted by blast

subsection \<open>Phase rotation\<close>

lemma phase_shift_nonneg: "0 \<le> ph \<Longrightarrow> 0 \<le> phase_shift enc ph"
  by (simp add: phase_shift_def)

lemma applyPhase_shifted:
  assumes "ph \<noteq> 0" "0 \<le> ph"
  shows "applyPhase enc p ph =
     fold (\<lambda>i q. q[(i + nat (phase_shift enc ph)) mod dimensions enc := Suc 0])
       (filter (truthy p) [0..<dimensions enc]) (replicate (dimensions enc) 0)"
proof -
  have s: "0 \<le> phase_shift enc ph" using assms(2) by (rule phase_shift_nonneg)
  have "set_bit_at (js_rem (int i + phase_shift enc ph) (int (dimensions enc))) q =
        q[(i + nat (phase_shift enc ph)) mod dimensions enc := Suc 0]" for i q
  proof -
    have e: "int i + phase_shift enc ph = int (i + nat (phase_shift enc ph))" using s by simp
    have "js_rem (int (i + nat (phase_shift enc ph))) (int (dimensions enc)) =
          int ((i + nat (phase_shift enc ph)) mod dimensions enc)"
      unfolding js_rem_def by (simp add: zmod_int)
    then show ?thesis unfolding e by (simp add: set_bit_at_def)
  qed
  then have "(\<lambda>i. set_bit_at (js_rem (int i + phase_shift enc ph) (int (dimensions enc)))) =
     (\<lambda>i q. q[(i + nat (phase_shift enc ph)) mod dimensions enc := Suc 0])"
    by (intro ext)
  then show ?thesis using assms(1) by (simp add: applyPhase_def Let_def)
qed

lemma shift_inj: "inj_on (\<lambda>i. (i + s) mod d) {i. i < (d::nat)}"
proof (rule inj_onI)
  fix x y assume xy: "x \<in> {i. i < d}" "y \<in> {i. i < d}" and h: "(x + s) mod d = (y + s) mod d"
  from h obtain q1 q2 where "x + s + d * q1 = y + s + d * q2"
    unfolding nat_mod_eq_iff by blast
  then have "x + d * q1 = y + d * q2" by simp
  then have "x mod d = y mod d" unfolding nat_mod_eq_iff by blast
  then show "x = y" using xy by simp
qed

lemma truthy_below: "length p \<le> d \<Longrightarrow> {i. i < d \<and> truthy p i} = {i. truthy p i}"
  by (auto simp: truthy_def)

lemma applyPhase_active_set:
  assumes "length p \<le> dimensions enc" "0 \<le> ph"
  shows "{i. truthy (applyPhase enc p ph) i} =
         (\<lambda>i. (i + nat (phase_shift enc ph)) mod dimensions enc) ` {i. truthy p i}"
proof (cases "ph = 0")
  case True
  have "(i + 0) mod dimensions enc = i" if "truthy p i" for i
    using that assms(1) by (simp add: truthy_def)
  then have "(\<lambda>i. (i + 0) mod dimensions enc) ` {i. truthy p i} = {i. truthy p i}"
    by force
  then show ?thesis using True by (simp add: applyPhase_def phase_shift_def)
next
  case False
  let ?f = "\<lambda>i. (i + nat (phase_shift enc ph)) mod dimensions enc"
  have act: "set (filter (truthy p) [0..<dimensions enc]) = {i. truthy p i}"
    using truthy_below[OF assms(1)] by auto
  have "truthy (applyPhase enc p ph) j \<longleftrightarrow> j \<in> ?f ` {i. truthy p i}" for j
  proof -
    have "truthy (applyPhase enc p ph) j \<longleftrightarrow> j < dimensions enc \<and> j \<in> ?f ` {i. truthy p i}"
      unfolding applyPhase_shifted[OF False assms(2)] truthy_fold_set act ..
    moreover have "j < dimensions enc" if "j \<in> ?f ` {i. truthy p i}"
    proof -
      from that obtain i where "truthy p i" "j = ?f i" by blast
      then have "0 < dimensions enc" using assms(1) by (auto simp: truthy_def)
      then show ?thesis using \<open>j = ?f i\<close> by simp
    qed
    ultimately show ?thesis by blast
  qed
  then show ?thesis by blast
qed

lemma applyPhase_activeCount:
  assumes "length p \<le> dimensions enc" "0 \<le> ph"
  shows "activeCount (applyPhase enc p ph) = activeCount p"
proof -
  let ?f = "\<lambda>i. (i + nat (phase_shift enc ph)) mod dimensions enc"
  have sub: "{i. truthy p i} \<subseteq> {i. i < dimensions enc}"
    using assms(1) by (auto simp: truthy_def)
  have "inj_on ?f {i. truthy p i}"
    by (rule inj_on_subset[OF shift_inj sub])
  then have "card (?f ` {i. truthy p i}) = card {i. truthy p i}"
    by (rule card_image)
  then show ?thesis
    unfolding activeCount_card applyPhase_active_set[OF assms] .
qed

text \<open>
  Claim C8. For a pattern \<open>p\<close> of the encoder (no longer than the dimension \<open>D\<close>) and
  a phase \<open>\<phi>\<close> with \<open>0 \<le> \<phi> < 2\<pi>\<close>, \<^verbatim>\<open>applyPhase\<close> returns a pattern with as
  many active bits as \<open>p\<close>, and its active positions are those of \<open>p\<close> moved by
  \<open>floor(\<phi> / (2\<pi>) * activeBits)\<close> modulo \<open>D\<close>.
\<close>

theorem applyPhase_rotates:
  assumes "length p \<le> dimensions enc" and "0 \<le> ph" and "ph < 2 * pi"
  shows "activeCount (applyPhase enc p ph) = activeCount p \<and>
         {i. truthy (applyPhase enc p ph) i} =
           (\<lambda>i. (i + nat \<lfloor>ph / (2 * pi) * real (activeBits enc)\<rfloor>) mod dimensions enc) `
             {i. truthy p i}"
  using applyPhase_activeCount[OF assms(1,2)] applyPhase_active_set[OF assms(1,2)]
  by (simp add: phase_shift_def)

theorem applyPhase_rotates_witness:
  "activeCount (applyPhase (small_encoder 8) [0, 1, 0, 0, 0, 0, 1, 1] pi) = 3 \<and>
   {i. truthy (applyPhase (small_encoder 8) [0, 1, 0, 0, 0, 0, 1, 1] pi) i} = {3, 0, 1}"
proof -
  let ?e = "small_encoder 8"
  let ?p = "[0, 1, 0, 0, 0, 0, 1, 1::nat]"
  have a: "length ?p \<le> dimensions ?e" by (simp add: small_encoder_def new_encoder_def)
  have b: "(0::real) \<le> pi" by simp
  have c: "pi < 2 * pi" by simp
  have "{i. truthy ?p i} = set (filter (truthy ?p) [0..<8])"
    by (auto simp: truthy_def)
  also have "\<dots> = {1, 6, 7}"
    by (simp add: truthy_def upt_rec eval_nat_numeral)
  finally have t: "{i. truthy ?p i} = {1, 6, 7}" .
  have s: "nat \<lfloor>pi / (2 * pi) * real (activeBits ?e)\<rfloor> = 2"
    by (simp add: small_encoder_def new_encoder_def)
  have d: "dimensions ?e = 8" by (simp add: small_encoder_def new_encoder_def)
  show ?thesis using applyPhase_rotates[OF a b c] unfolding s t d
    by (simp add: activeCount_def)
qed

subsection \<open>Sharing of arrays\<close>

lemma map_of_valid:
  "refs_valid enc h \<Longrightarrow> map_of (conceptMemory enc) c = Some r \<Longrightarrow> r < length h"
  by (auto simp: refs_valid_def list_all_iff dest!: map_of_SomeD)

lemma encode_stored:
  "encode enc h c = (r, enc', h') \<Longrightarrow> map_of (conceptMemory enc') c = Some r"
  by (auto simp: encode_def alloc_def map_add_def split: option.splits)

lemma encode_again:
  "encode enc h c = (r, enc', h') \<Longrightarrow> encode enc' h2 c = (r, enc', h2)"
  by (auto simp: encode_def alloc_def map_add_def split: option.splits)

lemma encode_ref_valid:
  "refs_valid enc h \<Longrightarrow> encode enc h c = (r, enc', h') \<Longrightarrow> r < length h'"
  by (auto simp: encode_def alloc_def split: option.splits dest: map_of_valid)

text \<open>
  Claim C10. \<^verbatim>\<open>superpose\<close>, \<^verbatim>\<open>findInterference\<close> and \<^verbatim>\<open>weightedSuperpose\<close> return
  a new array: the reference returned is one that no array had before, the heap after
  the call has exactly one array more and holds the computed result at that reference,
  and every array that existed, the inputs among them, is as it was. \<^verbatim>\<open>applyPhase\<close>
  with the phase 0 returns the very reference it was given and allocates nothing. Once
  \<^verbatim>\<open>encode\<close> has returned a reference for a concept, every later call for that concept
  returns the same reference, the one kept in the concept memory, whatever the heap has
  become: after a caller has overwritten the array behind it, the encoder hands out the
  overwritten array.
\<close>

theorem operations_allocate_encode_shares:
  "(fst (superpose_ref enc h rs) = length h \<and>
    length (snd (superpose_ref enc h rs)) = Suc (length h) \<and>
    snd (superpose_ref enc h rs) ! fst (superpose_ref enc h rs) =
      superpose enc (map (\<lambda>r. h ! r) rs) \<and>
    take (length h) (snd (superpose_ref enc h rs)) = h) \<and>
   (fst (fst (findInterference_ref enc h r1 r2)) = length h \<and>
    length (snd (findInterference_ref enc h r1 r2)) = Suc (length h) \<and>
    snd (findInterference_ref enc h r1 r2) ! fst (fst (findInterference_ref enc h r1 r2)) =
      pattern (findInterference enc (h ! r1) (h ! r2)) \<and>
    snd (fst (findInterference_ref enc h r1 r2)) =
      strength (findInterference enc (h ! r1) (h ! r2)) \<and>
    take (length h) (snd (findInterference_ref enc h r1 r2)) = h) \<and>
   (fst (weightedSuperpose_ref enc h rws) = length h \<and>
    length (snd (weightedSuperpose_ref enc h rws)) = Suc (length h) \<and>
    snd (weightedSuperpose_ref enc h rws) ! fst (weightedSuperpose_ref enc h rws) =
      weightedSuperpose enc (map (\<lambda>rw. (h ! fst rw, snd rw)) rws) \<and>
    take (length h) (snd (weightedSuperpose_ref enc h rws)) = h) \<and>
   applyPhase_ref enc h r 0 = (r, h) \<and>
   (refs_valid enc h \<and> encode enc h c = (r', enc', h') \<longrightarrow>
      r' < length h' \<and>
      map_of (conceptMemory enc') c = Some r' \<and>
      encode enc' h' c = (r', enc', h') \<and>
      encode enc' (h'[r' := q]) c = (r', enc', h'[r' := q]) \<and>
      (h'[r' := q]) ! r' = q)"
proof -
  have s: "fst (superpose_ref enc h rs) = length h \<and>
    length (snd (superpose_ref enc h rs)) = Suc (length h) \<and>
    snd (superpose_ref enc h rs) ! fst (superpose_ref enc h rs) =
      superpose enc (map (\<lambda>r. h ! r) rs) \<and>
    take (length h) (snd (superpose_ref enc h rs)) = h"
    by (simp add: superpose_ref_def alloc_def)
  have f: "fst (fst (findInterference_ref enc h r1 r2)) = length h \<and>
    length (snd (findInterference_ref enc h r1 r2)) = Suc (length h) \<and>
    snd (findInterference_ref enc h r1 r2) ! fst (fst (findInterference_ref enc h r1 r2)) =
      pattern (findInterference enc (h ! r1) (h ! r2)) \<and>
    snd (fst (findInterference_ref enc h r1 r2)) =
      strength (findInterference enc (h ! r1) (h ! r2)) \<and>
    take (length h) (snd (findInterference_ref enc h r1 r2)) = h"
    by (simp add: findInterference_ref_def alloc_def Let_def)
  have w: "fst (weightedSuperpose_ref enc h rws) = length h \<and>
    length (snd (weightedSuperpose_ref enc h rws)) = Suc (length h) \<and>
    snd (weightedSuperpose_ref enc h rws) ! fst (weightedSuperpose_ref enc h rws) =
      weightedSuperpose enc (map (\<lambda>rw. (h ! fst rw, snd rw)) rws) \<and>
    take (length h) (snd (weightedSuperpose_ref enc h rws)) = h"
    by (simp add: weightedSuperpose_ref_def alloc_def)
  have a: "applyPhase_ref enc h r 0 = (r, h)"
    by (simp add: applyPhase_ref_def)
  have e: "refs_valid enc h \<and> encode enc h c = (r', enc', h') \<longrightarrow>
      r' < length h' \<and>
      map_of (conceptMemory enc') c = Some r' \<and>
      encode enc' h' c = (r', enc', h') \<and>
      encode enc' (h'[r' := q]) c = (r', enc', h'[r' := q]) \<and>
      (h'[r' := q]) ! r' = q"
    by (auto simp: encode_again encode_stored dest: encode_ref_valid)
  from s f w a e show ?thesis by blast
qed

theorem operations_allocate_encode_shares_witness:
  "refs_valid (small_encoder 8) [] \<and>
   encode (small_encoder 8) [] ''love'' =
     (0, (small_encoder 8)\<lparr>conceptMemory := [(''love'', 0)]\<rparr>,
      [encode_pattern (small_encoder 8) ''love'']) \<and>
   encode ((small_encoder 8)\<lparr>conceptMemory := [(''love'', 0)]\<rparr>) [[9, 9, 9]] ''love'' =
     (0, (small_encoder 8)\<lparr>conceptMemory := [(''love'', 0)]\<rparr>, [[9, 9, 9]]) \<and>
   fst (superpose_ref (small_encoder 2) [[1, 0], [0, 1]] [0, 1]) = 2 \<and>
   length (snd (superpose_ref (small_encoder 2) [[1, 0], [0, 1]] [0, 1])) = 3 \<and>
   snd (superpose_ref (small_encoder 2) [[1, 0], [0, 1]] [0, 1]) ! 2 = [1, 1] \<and>
   take 2 (snd (superpose_ref (small_encoder 2) [[1, 0], [0, 1]] [0, 1])) = [[1, 0], [0, 1]] \<and>
   applyPhase_ref (small_encoder 2) [[1, 0], [0, 1]] 1 0 = (1, [[1, 0], [0, 1]])"
proof -
  let ?e = "small_encoder 8"
  let ?e' = "?e\<lparr>conceptMemory := [(''love'', 0)]\<rparr>"
  let ?h' = "[encode_pattern ?e ''love'']"
  let ?d = "small_encoder 2"
  let ?h = "[[1, 0], [0, 1::nat]]"
  have v: "refs_valid ?e []"
    by (simp add: refs_valid_def small_encoder_def new_encoder_def)
  have e: "encode ?e [] ''love'' = (0, ?e', ?h')"
    by (simp add: encode_def alloc_def small_encoder_def new_encoder_def)
  have c: "superpose ?d (map (\<lambda>r. ?h ! r) [0, 1]) = [1, 1]"
    by (simp add: superpose_def superpose_into_def small_encoder_def new_encoder_def upt_rec)
  from operations_allocate_encode_shares[of ?d ?h "[0, 1]" 0 0 "[]" 1]
  have a1: "fst (superpose_ref ?d ?h [0, 1]) = length ?h"
    and a2: "length (snd (superpose_ref ?d ?h [0, 1])) = Suc (length ?h)"
    and a3: "snd (superpose_ref ?d ?h [0, 1]) ! fst (superpose_ref ?d ?h [0, 1]) =
               superpose ?d (map (\<lambda>r. ?h ! r) [0, 1])"
    and a4: "take (length ?h) (snd (superpose_ref ?d ?h [0, 1])) = ?h"
    and 5: "applyPhase_ref ?d ?h 1 0 = (1, ?h)"
    by blast+
  have l: "length ?h = 2" by simp
  have 1: "fst (superpose_ref ?d ?h [0, 1]) = 2" using a1 unfolding l .
  have 2: "length (snd (superpose_ref ?d ?h [0, 1])) = 3" using a2 unfolding l by simp
  have 3: "snd (superpose_ref ?d ?h [0, 1]) ! 2 = [1, 1]" using a3 unfolding 1 c .
  have 4: "take 2 (snd (superpose_ref ?d ?h [0, 1])) = ?h" using a4 unfolding l .
  from operations_allocate_encode_shares
         [of ?e "[]" "[]" 0 0 "[]" 0 "''love''" 0 ?e' ?h' "[9, 9, 9]"] v e
  have 6: "encode ?e' [[9, 9, 9]] ''love'' = (0, ?e', [[9, 9, 9]])" by simp
  from v e 1 2 3 4 5 6 show ?thesis by blast
qed

section \<open>Properties of the tokens\<close>

subsection \<open>Stability\<close>

text \<open>
  Claim C6, as stated: a token is stable exactly when the divergence \<open>|H1 - H2|\<close> is
  below the divergence threshold and both \<open>|jerk|\<close> and \<open>|snap|\<close> are below 1 and 2. The
  code tests \<^verbatim>\<open>Math.abs(jerk) > 1.0\<close> and \<^verbatim>\<open>Math.abs(snap) > 2.0\<close> for instability,
  so a token whose jerk is exactly 1 is stable.
\<close>

theorem stable_at_threshold_counterexample:
  "isStable edge_token \<and> \<not> \<bar>jerk (derivatives edge_token)\<bar> < 1"
  by (simp add: isStable_def edge_token_def new_bihamiltonian_token_def updateHamiltonians_def
      updateDerivatives_def Let_def)

text \<open>
  Claim C6, amended: the divergence that \<^verbatim>\<open>checkDivergence\<close> reports is \<open>|H1 - H2|\<close>,
  and it reports one exactly when that exceeds the divergence threshold, which is 0.3
  in a new token; a token is stable exactly when \<open>|H1 - H2|\<close> is below the divergence
  threshold, \<open>|jerk|\<close> is at most 1 and \<open>|snap|\<close> is at most 2.
\<close>

theorem stable_iff:
  "(isStable t \<longleftrightarrow>
      \<bar>H1_coherence t - H2_structure t\<bar> < divergenceThreshold t \<and>
      \<bar>jerk (derivatives t)\<bar> \<le> 1 \<and> \<bar>snap (derivatives t)\<bar> \<le> 2) \<and>
   map_option divergence (checkDivergence t) =
     (if \<bar>H1_coherence t - H2_structure t\<bar> > divergenceThreshold t
      then Some \<bar>H1_coherence t - H2_structure t\<bar> else None) \<and>
   divergenceThreshold (new_bihamiltonian_token s u d) = 3 / 10"
  by (auto simp: isStable_def checkDivergence_def new_bihamiltonian_token_def
      updateHamiltonians_def updateDerivatives_def Let_def)

subsection \<open>Coherence energy\<close>

lemma fold_add_sum_list: "fold (\<lambda>x (total::real). total + f x) xs a = a + sum_list (map f xs)"
  by (induction xs arbitrary: a) simp_all

lemma superposition_magnitude_sum:
  "superposition_magnitude cs =
     sqrt ((\<Sum>c\<leftarrow>cs. weight (snd c) * cos (phase (snd c)))\<^sup>2 +
           (\<Sum>c\<leftarrow>cs. weight (snd c) * sin (phase (snd c)))\<^sup>2)"
  by (simp add: superposition_magnitude_def fold_add_sum_list Let_def)

lemma H1_updateHamiltonians:
  "H1_coherence (updateHamiltonians t) = calculateCoherenceEnergy t"
  by (simp add: updateHamiltonians_def updateDerivatives_def Let_def)

lemma added_components:
  "components (emotionalState (addEmotionalComponent now e w ph t)) =
     AList.update (Some e) \<lparr>weight = w, phase = ph, timestamp = now\<rparr>
       (components (emotionalState t))"
  by (simp add: addEmotionalComponent_def recalculateSuperposition_def Let_def)

lemma added_coherence:
  "state_coherence (emotionalState (addEmotionalComponent now e w ph t)) =
     (if length (components (emotionalState (addEmotionalComponent now e w ph t))) > 1 \<and>
         superposition_magnitude (components (emotionalState (addEmotionalComponent now e w ph t)))
           < 3 / 10
      then 0
      else superposition_magnitude (components (emotionalState (addEmotionalComponent now e w ph t)))
           / real (length (components (emotionalState (addEmotionalComponent now e w ph t)))))"
  by (simp add: addEmotionalComponent_def recalculateSuperposition_def Let_def)

lemma added_dims:
  "dims (addEmotionalComponent now e w ph t) =
     (dims t)\<lparr>emotional :=
        superposition_magnitude (components (emotionalState (addEmotionalComponent now e w ph t)))\<rparr>"
  by (simp add: addEmotionalComponent_def recalculateSuperposition_def Let_def)

lemma normalize_half:
  "normalizeDimensions half_dims =
     \<lparr>semantic = 1 / 8, temporal = 1 / 8, causal = 1 / 8, emotional = 1 / 8,
      relational = 1 / 8, probability = 1 / 8, energy = 1 / 8, coherence = 1 / 8\<rparr>"
  by (simp add: normalizeDimensions_def half_dims_def dimension_names_def)

lemma updateHamiltonians_keeps:
  "dims (updateHamiltonians t) = dims t"
  "emotionalState (updateHamiltonians t) = emotionalState t"
  by (simp_all add: updateHamiltonians_def updateDerivatives_def Let_def)

lemma fresh_fields:
  "dims fresh_token = normalizeDimensions half_dims"
  "emotionalState fresh_token = \<lparr>components = [], collapsed = False, state_coherence = 0\<rparr>"
  by (simp_all add: fresh_token_def new_bihamiltonian_token_def updateHamiltonians_keeps)

lemma glad_components:
  "components (emotionalState glad_token) =
     [(Some ''joy'', \<lparr>weight = 1 / 2, phase = 0, timestamp = 1\<rparr>),
      (Some ''hope'', \<lparr>weight = 1 / 2, phase = 0, timestamp = 2\<rparr>)]"
  by (simp add: glad_token_def updateHamiltonians_keeps added_components fresh_fields)

text \<open>
  Claim C7, as stated: the coherence energy H1 is the square root of the sum of the
  squares of the eight features plus the magnitude of the phase-weighted sum of the
  emotional components. The term the code adds is \<^verbatim>\<open>emotionalState.coherence\<close>, which
  \<^verbatim>\<open>recalculateSuperposition\<close> sets to the magnitude divided by the number of
  components (or to 0): for a new token with the dimensions 1/8 that receives two
  emotions of weight 1/2 in phase, the magnitude is 1, the term is 1/2, and H1 is
  \<open>sqrt (103/64)\<close> where the claim gives \<open>sqrt (135/64)\<close>.
\<close>

theorem coherence_energy_counterexample:
  "superposition_magnitude (components (emotionalState glad_token)) = 1 \<and>
   H1_coherence glad_token = sqrt (103 / 64) \<and>
   sqrt ((\<Sum>dim\<leftarrow>dimension_names. (dim_value (dims glad_token) dim)\<^sup>2) +
         superposition_magnitude (components (emotionalState glad_token))) = sqrt (135 / 64) \<and>
   H1_coherence glad_token \<noteq>
     sqrt ((\<Sum>dim\<leftarrow>dimension_names. (dim_value (dims glad_token) dim)\<^sup>2) +
           superposition_magnitude (components (emotionalState glad_token)))"
proof -
  let ?t1 = "addEmotionalComponent 1 ''joy'' (1 / 2) 0 fresh_token"
  let ?t2 = "addEmotionalComponent 2 ''hope'' (1 / 2) 0 ?t1"
  have m: "superposition_magnitude (components (emotionalState glad_token)) = 1"
    by (simp add: glad_components superposition_magnitude_def)
  have cs2: "components (emotionalState ?t2) = components (emotionalState glad_token)"
    by (simp add: glad_token_def updateHamiltonians_keeps)
  have d2: "dims ?t2 = (normalizeDimensions half_dims)\<lparr>emotional := 1\<rparr>"
    by (simp add: added_dims[of 2] added_dims[of 1] cs2 m fresh_fields)
  have c2: "state_coherence (emotionalState ?t2) = 1 / 2"
    by (simp add: added_coherence[of 2] cs2 m) (simp add: glad_components)
  have d: "dims glad_token = (normalizeDimensions half_dims)\<lparr>emotional := 1\<rparr>"
    using d2 by (simp add: glad_token_def updateHamiltonians_keeps)
  have h: "H1_coherence glad_token = sqrt (103 / 64)"
    unfolding glad_token_def H1_updateHamiltonians
    by (simp add: calculateCoherenceEnergy_def d2 c2 normalize_half dimension_names_def)
  have s: "(\<Sum>dim\<leftarrow>dimension_names. (dim_value (dims glad_token) dim)\<^sup>2) = 71 / 64"
    by (simp add: d normalize_half dimension_names_def power2_eq_square)
  show ?thesis unfolding m h s by simp
qed

text \<open>
  Claim C7, amended: after an emotional component has been added, the recomputed
  coherence energy H1 is the square root of the sum of the squares of the eight features
  plus the affective coherence, where the affective coherence is 0 when there are
  several components and the magnitude \<open>sqrt ((\<Sum> w cos \<phi>)\<^sup>2 + (\<Sum> w sin \<phi>)\<^sup>2)\<close> is
  below 0.3, and is that magnitude divided by the number of components otherwise; the
  emotional feature itself is that magnitude.
\<close>

theorem coherence_energy_formula:
  "H1_coherence (updateHamiltonians (addEmotionalComponent now e w ph t)) =
     (let t' = addEmotionalComponent now e w ph t;
          cs = components (emotionalState t');
          magnitude = sqrt ((\<Sum>c\<leftarrow>cs. weight (snd c) * cos (phase (snd c)))\<^sup>2 +
                            (\<Sum>c\<leftarrow>cs. weight (snd c) * sin (phase (snd c)))\<^sup>2);
          affectiveCoherence =
            (if length cs > 1 \<and> magnitude < 3 / 10 then 0 else magnitude / real (length cs))
      in sqrt ((\<Sum>dim\<leftarrow>dimension_names. (dim_value (dims t') dim)\<^sup>2) + affectiveCoherence)) \<and>
   emotional (dims (addEmotionalComponent now e w ph t)) =
     superposition_magnitude (components (emotionalState (addEmotionalComponent now e w ph t)))"
proof -
  let ?t' = "addEmotionalComponent now e w ph t"
  let ?cs = "components (emotionalState ?t')"
  have sc: "state_coherence (emotionalState ?t') =
      (if length ?cs > 1 \<and> superposition_magnitude ?cs < 3 / 10 then 0
       else superposition_magnitude ?cs / real (length ?cs))"
    by (rule added_coherence)
  have em: "emotional (dims ?t') = superposition_magnitude ?cs"
    by (simp add: added_dims[of now])
  have "calculateCoherenceEnergy ?t' =
      sqrt ((\<Sum>dim\<leftarrow>dimension_names. (dim_value (dims ?t') dim)\<^sup>2)
            + state_coherence (emotionalState ?t'))"
    by (simp add: calculateCoherenceEnergy_def fold_add_sum_list power2_eq_square Let_def)
  then show ?thesis
    unfolding H1_updateHamiltonians Let_def sc superposition_magnitude_sum[symmetric]
    using em by simp
qed

subsection \<open>Collapse of the emotional state\<close>

lemma dominant_fold:
  "fold (\<lambda>c (maxWeight, dominantEmotion).
             if weight (snd c) > maxWeight then (weight (snd c), fst c)
             else (maxWeight, dominantEmotion)) cs (m, d) = (m', d') \<Longrightarrow>
   m \<le> m' \<and> (\<forall>c \<in> set cs. weight (snd c) \<le> m') \<and>
   (if m' = m then d' = d else (d', m') \<in> (\<lambda>c. (fst c, weight (snd c))) ` set cs)"
proof (induction cs arbitrary: m d)
  case Nil
  then show ?case by simp
next
  case (Cons c cs)
  show ?case
  proof (cases "weight (snd c) > m")
    case True
    with Cons.prems have "fold (\<lambda>c (maxWeight, dominantEmotion).
             if weight (snd c) > maxWeight then (weight (snd c), fst c)
             else (maxWeight, dominantEmotion)) cs (weight (snd c), fst c) = (m', d')" by simp
    from Cons.IH[OF this] True show ?thesis by (auto split: if_splits)
  next
    case False
    with Cons.prems have "fold (\<lambda>c (maxWeight, dominantEmotion).
             if weight (snd c) > maxWeight then (weight (snd c), fst c)
             else (maxWeight, dominantEmotion)) cs (m, d) = (m', d')" by simp
    from Cons.IH[OF this] False show ?thesis by (auto split: if_splits)
  qed
qed

text \<open>
  When some component has a positive weight, the loop finds a component of the greatest
  weight.
\<close>

lemma dominant_positive:
  assumes "\<exists>c \<in> set cs. weight (snd c) > 0"
  shows "\<exists>c \<in> set cs. fst c = snd (dominant cs) \<and> weight (snd c) = fst (dominant cs) \<and>
           (\<forall>c' \<in> set cs. weight (snd c') \<le> weight (snd c))"
proof -
  obtain m' d' where md: "dominant cs = (m', d')" by (cases "dominant cs")
  from dominant_fold[OF md[unfolded dominant_def]]
  have 1: "0 \<le> m'" and 2: "\<forall>c \<in> set cs. weight (snd c) \<le> m'"
    and 3: "if m' = 0 then d' = None else (d', m') \<in> (\<lambda>c. (fst c, weight (snd c))) ` set cs"
    by auto
  from assms 2 have "m' > 0" by force
  with 3 obtain c where "c \<in> set cs" "fst c = d'" "weight (snd c) = m'" by auto
  with 2 md show ?thesis by auto
qed

lemma collapseEmotional_positive:
  assumes "\<not> collapsed (emotionalState t)"
    and "\<exists>c \<in> set (components (emotionalState t)). weight (snd c) > 0"
  shows "\<exists>c \<in> set (components (emotionalState t)).
           (\<forall>c' \<in> set (components (emotionalState t)). weight (snd c') \<le> weight (snd c)) \<and>
           fst (collapseEmotional now t) = Some (fst c) \<and>
           components (emotionalState (snd (collapseEmotional now t))) =
             [(fst c, \<lparr>weight = 1, phase = 0, timestamp = now\<rparr>)] \<and>
           collapsed (emotionalState (snd (collapseEmotional now t))) \<and>
           emotional (dims (snd (collapseEmotional now t))) = 1"
proof -
  from dominant_positive[OF assms(2)] obtain c where
    c: "c \<in> set (components (emotionalState t))"
      "fst c = snd (dominant (components (emotionalState t)))"
      "\<forall>c' \<in> set (components (emotionalState t)). weight (snd c') \<le> weight (snd c)"
    by blast
  show ?thesis
    by (rule bexI[OF _ c(1)]) (use assms(1) c(2,3) in \<open>simp add: collapseEmotional_def Let_def\<close>)
qed

lemma collapseEmotional_again:
  "collapsed (emotionalState t) \<Longrightarrow> collapseEmotional now t = (None, t)"
  by (simp add: collapseEmotional_def)

lemma collapseEmotional_idempotent:
  "collapseEmotional later (snd (collapseEmotional now t)) = (None, snd (collapseEmotional now t))"
  by (simp add: collapseEmotional_def Let_def)

lemma collapse_mixed:
  "fst (collapseEmotional 9 mixed_token) = Some (Some ''joy'') \<and>
   components (emotionalState (snd (collapseEmotional 9 mixed_token))) =
     [(Some ''joy'', \<lparr>weight = 1, phase = 0, timestamp = 9\<rparr>)]"
proof -
  have cs: "components (emotionalState mixed_token) =
     [(Some ''joy'', \<lparr>weight = 6 / 10, phase = 0, timestamp = 1\<rparr>),
      (Some ''nostalgia'', \<lparr>weight = 4 / 10, phase = pi / 2, timestamp = 2\<rparr>),
      (Some ''sadness'', \<lparr>weight = 3 / 10, phase = pi, timestamp = 3\<rparr>)]"
    by (simp add: mixed_token_def added_components new_emotional_token_def)
  have nc: "\<not> collapsed (emotionalState mixed_token)"
    by (simp add: mixed_token_def addEmotionalComponent_def recalculateSuperposition_def Let_def
        new_emotional_token_def)
  show ?thesis using nc by (simp add: collapseEmotional_def Let_def cs dominant_def)
qed

text \<open>
  Claim C9. On a token that is not collapsed and has at least one emotional component,
  \<^verbatim>\<open>collapseEmotional\<close> is to leave one component, an emotion of the greatest weight,
  and to return that emotion. The loop starts from \<^verbatim>\<open>maxWeight = 0\<close> and compares with
  \<^verbatim>\<open>>\<close>: for a token whose only emotion has weight 0 it finds nothing, the components
  become the single key \<^verbatim>\<open>null\<close>, and \<^verbatim>\<open>null\<close> is returned. (With a component of
  positive weight the claim holds, and a second call changes nothing: the lemmas
  above.)
\<close>

theorem collapse_of_zero_weight:
  "components (emotionalState neutral_token)
      = [(Some ''neutral'', \<lparr>weight = 0, phase = 0, timestamp = 1000\<rparr>)] \<and>
   \<not> collapsed (emotionalState neutral_token) \<and>
   fst (collapseEmotional 2000 neutral_token) = Some None \<and>
   components (emotionalState (snd (collapseEmotional 2000 neutral_token)))
      = [(None, \<lparr>weight = 1, phase = 0, timestamp = 2000\<rparr>)]"
  by (simp add: neutral_token_def new_emotional_token_def addEmotionalComponent_def
      recalculateSuperposition_def collapseEmotional_def dominant_def Let_def)

section \<open>Properties of the skip-trace engine\<close>

subsection \<open>Coherence of a trace\<close>

lemma resonanceWith_penalised:
  "resonanceWith r a b = spec_resonance a b * calculateDistancePenalty r"
  by (simp add: resonanceWith_def spec_resonance_def fold_add_sum_list Let_def)

lemma length_index_pairs: "length (index_pairs n) = n * (n - 1) div 2"
proof -
  have "length (index_pairs n) = sum_list (map (\<lambda>i. n - Suc i) [0..<n - 1])"
    by (simp add: index_pairs_def length_concat comp_def)
  also have "\<dots> = (\<Sum>i<n - 1. n - Suc i)"
    by (simp add: interv_sum_list_conv_sum_set_nat atLeast0LessThan)
  also have "\<dots> = (\<Sum>i<n - 1. Suc ((n - 1) - Suc i))"
    by (rule sum.cong) auto
  also have "\<dots> = (\<Sum>i<n - 1. Suc i)"
    by (rule sum.nat_diff_reindex)
  also have "\<dots> = n * (n - 1) div 2"
  proof -
    have "(\<Sum>i<m. Suc i) = Suc m * m div 2" for m
      by (induction m) auto
    from this[of "n - 1"] show ?thesis by (cases n) auto
  qed
  finally show ?thesis .
qed

lemma fold_pairs:
  "fold (\<lambda>(i, j) (total, k). (total + F k i j, Suc k)) ps (t0, k0) =
     ((t0::real) + (\<Sum>q<length ps. F (k0 + q) (fst (ps ! q)) (snd (ps ! q))), k0 + length ps)"
proof (induction ps arbitrary: t0 k0)
  case Nil
  then show ?case by simp
next
  case (Cons p ps)
  obtain i j where p: "p = (i, j)" by (cases p)
  have "(\<Sum>q<Suc (length ps). F (k0 + q) (fst ((p # ps) ! q)) (snd ((p # ps) ! q))) =
        F k0 i j + (\<Sum>q<length ps. F (Suc k0 + q) (fst (ps ! q)) (snd (ps ! q)))"
    by (simp add: sum.lessThan_Suc_shift p del: sum.lessThan_Suc)
  then have "(\<Sum>q<length (p # ps). F (k0 + q) (fst ((p # ps) ! q)) (snd ((p # ps) ! q))) =
        F k0 i j + (\<Sum>q<length ps. F (Suc k0 + q) (fst (ps ! q)) (snd (ps ! q)))"
    by simp
  then show ?case unfolding p
    using Cons.IH[of "t0 + F k0 i j" "Suc k0"] by (simp add: p add.assoc)
qed

lemma index_pairs_3: "index_pairs (Suc (Suc (Suc 0))) = [(0, Suc 0), (0, 2), (Suc 0, 2)]"
  by (simp add: index_pairs_def upt_rec)

lemma index_pairs_3_numeral: "index_pairs 3 = [(0, Suc 0), (0, 2), (Suc 0, 2)]"
  using index_pairs_3 by (simp add: numeral_3_eq_3)

text \<open>The search of the engine on the three tokens: one trace survives.\<close>

lemmas three_eval =
  findSkipCandidates_def engine3_def new_engine_def three_store_def skipScore_def
  causalStrength_def emotionalResonance_def semanticDistance_def temporalFlow_def Let_def

lemma engine3_fields:
  "maxTraceLength engine3 = 10" "branchingFactor engine3 = 3" "total_energy engine3 = 1"
  by (simp_all add: engine3_def new_engine_def)

lemma three_candidates:
  "findSkipCandidates engine3 three_store 0 [0] = [(Suc 0, 5649 / 10000), (2, 5399 / 10000)]"
  "findSkipCandidates engine3 three_store (Suc 0) [0, Suc 0] = [(2, 5649 / 10000)]"
  "findSkipCandidates engine3 three_store 2 [0, Suc 0, 2] = []"
  "findSkipCandidates engine3 three_store 2 [0, 2] = [(Suc 0, 5649 / 10000)]"
  "findSkipCandidates engine3 three_store (Suc 0) [0, 2, Suc 0] = []"
  by (simp_all add: three_eval)

lemma three_costs:
  "calculateEnergyCost (three_store 0) (three_store (Suc 0)) = 7 / 80"
  "calculateEnergyCost (three_store (Suc 0)) (three_store 2) = 37 / 400"
  "calculateEnergyCost (three_store 0) (three_store 2) = 9 / 50"
  "calculateEnergyCost (three_store 2) (three_store (Suc 0)) = 37 / 400"
  by (simp_all add: calculateEnergyCost_def semanticDistance_def three_store_def Let_def)

lemma three_traces:
  "traceFromToken engine3 three_store 0 [] 1 =
     [\<lparr>path = [0, Suc 0, 2], spent = 9 / 50, complete = False, score = None\<rparr>,
      \<lparr>path = [0, 2, Suc 0], spent = 109 / 400, complete = False, score = None\<rparr>]"
proof -
  have leaf1: "traceFromToken engine3 three_store 2 [0, Suc 0] (41 / 50) =
      [\<lparr>path = [0, Suc 0, 2], spent = 9 / 50, complete = False, score = None\<rparr>]"
    by (subst traceFromToken.simps) (simp add: three_candidates engine3_fields)
  have leaf2: "traceFromToken engine3 three_store (Suc 0) [0, 2] (291 / 400) =
      [\<lparr>path = [0, 2, Suc 0], spent = 109 / 400, complete = False, score = None\<rparr>]"
    by (subst traceFromToken.simps) (simp add: three_candidates engine3_fields)
  have mid1: "traceFromToken engine3 three_store (Suc 0) [0] (73 / 80) =
      [\<lparr>path = [0, Suc 0, 2], spent = 9 / 50, complete = False, score = None\<rparr>]"
    by (subst traceFromToken.simps)
       (simp add: three_candidates three_costs engine3_fields leaf1)
  have mid2: "traceFromToken engine3 three_store 2 [0] (41 / 50) =
      [\<lparr>path = [0, 2, Suc 0], spent = 109 / 400, complete = False, score = None\<rparr>]"
    by (subst traceFromToken.simps)
       (simp add: three_candidates three_costs engine3_fields leaf2)
  show ?thesis
    by (subst traceFromToken.simps)
       (simp add: three_candidates three_costs engine3_fields mid1 mid2)
qed

lemma three_search:
  "searchTraces engine3 three_store =
     [\<lparr>path = [0, Suc 0, 2], spent = 9 / 50, complete = False, score = None\<rparr>]"
proof -
  have "findAnchors engine3 three_store = [0]"
    by (simp add: findAnchors_def engine3_def new_engine_def three_store_def Let_def)
  then show ?thesis
    by (simp add: searchTraces_def engine3_fields three_traces pruneTraces_def three_store_def
        Let_def)
qed

lemma three_resonances:
  "spec_resonance (three_store 0) (three_store (Suc 0)) = 193 / 200"
  "spec_resonance (three_store 0) (three_store 2) = 93 / 100"
  "spec_resonance (three_store (Suc 0)) (three_store 2) = 193 / 200"
  by (simp_all add: spec_resonance_def three_store_def dimension_names_def)

text \<open>
  What \<^verbatim>\<open>calculateTraceCoherence\<close> computes: a trace of fewer than two tokens has the
  coherence 0. For a trace of \<open>n \<ge> 2\<close> tokens the coherence is the mean over the
  \<open>n (n - 1) / 2\<close> pairs of its tokens of the feature resonance
  \<open>\<Sum> (1 - |a - b|) * weight\<close> of the pair times the distance penalty \<open>0.8 + 0.2 r\<close>, with
  \<open>r\<close> the random number drawn for the pair, plus the bonus
  \<open>0.2 * (1 - energySpent / initialEnergy)\<close>, capped at 1.
\<close>

lemma trace_coherence_formula:
  "(length (path tr) < 2 \<longrightarrow> calculateTraceCoherence eng tok rnd tr = 0) \<and>
   (2 \<le> length (path tr) \<longrightarrow>
      calculateTraceCoherence eng tok rnd tr =
        min 1 ((\<Sum>q<length (index_pairs (length (path tr))).
                   spec_resonance (tok (path tr ! fst (index_pairs (length (path tr)) ! q)))
                                  (tok (path tr ! snd (index_pairs (length (path tr)) ! q)))
                   * (8 / 10 + rnd q * (2 / 10)))
                / real (length (path tr) * (length (path tr) - 1) div 2)
               + (1 - spent tr / total_energy eng) * (2 / 10))) \<and>
   length (index_pairs (length (path tr))) = length (path tr) * (length (path tr) - 1) div 2"
proof -
  let ?n = "length (path tr)"
  have pos: "0 < length (index_pairs ?n)" if "2 \<le> ?n"
  proof -
    have "2 * 1 \<le> ?n * (?n - 1)" using that by (intro mult_mono) auto
    then have "1 \<le> ?n * (?n - 1) div 2" by simp
    then show ?thesis by (simp add: length_index_pairs)
  qed
  show ?thesis
    using pos
    by (auto simp: calculateTraceCoherence_def Let_def fold_pairs resonanceWith_penalised
        calculateDistancePenalty_def length_index_pairs)
qed

lemma trace_coherence_formula_example:
  "calculateTraceCoherence engine3 three_store (\<lambda>k. 1 / 2)
     \<lparr>path = [0, 1, 2], spent = 9 / 50, complete = False, score = None\<rparr> = 1 \<and>
   calculateTraceCoherence engine3 three_store (\<lambda>k. 1 / 2)
     \<lparr>path = [0], spent = 0, complete = False, score = None\<rparr> = 0"
proof -
  let ?tr = "\<lparr>path = [0, 1, 2], spent = 9 / 50, complete = False, score = None\<rparr>"
  let ?one = "\<lparr>path = [0], spent = 0, complete = False, score = None\<rparr>"
  have n: "2 \<le> length (path ?tr)" by simp
  have "calculateTraceCoherence engine3 three_store (\<lambda>k. 1 / 2) ?tr = 1"
    using n trace_coherence_formula[of ?tr engine3 three_store "\<lambda>k. 1 / 2"]
    by (simp add: index_pairs_3 three_resonances engine3_fields)
  moreover have "calculateTraceCoherence engine3 three_store (\<lambda>k. 1 / 2) ?one = 0"
    using trace_coherence_formula[of ?one engine3 three_store "\<lambda>k. 1 / 2"] by simp
  ultimately show ?thesis by simp
qed

text \<open>
  The weights of the eight dimensions add up to 1, so the feature resonance of two tokens
  with the same dimensions is 1, as \<^verbatim>\<open>HyperpositionToken.test.js\<close> expects of
  \<^verbatim>\<open>resonanceWith\<close> (\<^verbatim>\<open>returns 1.0 for identical tokens\<close>). What \<^verbatim>\<open>resonanceWith\<close>
  returns for them is the distance penalty alone, which is below 1 for every random
  number below 1.
\<close>

lemma spec_resonance_identical:
  "dims a = dims b \<Longrightarrow> spec_resonance a b = 1"
  by (simp add: spec_resonance_def dimension_names_def)

lemma resonanceWith_identical:
  "dims a = dims b \<Longrightarrow> resonanceWith r a b = 8 / 10 + r * (2 / 10)"
  by (simp add: resonanceWith_penalised spec_resonance_identical calculateDistancePenalty_def)

lemma resonanceWith_identical_below_one:
  "dims a = dims b \<Longrightarrow> r < 1 \<Longrightarrow> resonanceWith r a b < 1"
  by (simp add: resonanceWith_identical)

text \<open>
  Claim C4: the coherence of a surviving trace of at least two tokens is the mean, over
  all pairs of its tokens, of the resonance \<open>\<Sum> (1 - |a - b|) * weight\<close> of their
  features, plus the bonus \<open>0.2 * (1 - energySpent / initialEnergy)\<close>, capped at 1. In
  the code \<^verbatim>\<open>resonanceWith\<close> multiplies that sum by
  \<^verbatim>\<open>calculateDistancePenalty\<close>, the placeholder \<^verbatim>\<open>0.8 + Math.random() * 0.2\<close>
  (\<^verbatim>\<open>For now, return a simulated penalty\<close>), so the score the engine assigns misses
  the formula. On the three tokens above the engine returns one trace, with the energy
  0.18 spent; when the random number 0 is drawn each time its coherence is 139/150,
  where the formula gives 1, and the resonance of the first token with itself is 4/5,
  where the formula and the test of \<^verbatim>\<open>resonanceWith\<close> give 1.
\<close>

theorem trace_coherence_misses_formula:
  "generateTraces engine3 three_store (\<lambda>k. 0) =
     [\<lparr>path = [0, 1, 2], spent = 9 / 50, complete = False, score = Some (139 / 150)\<rparr>] \<and>
   min 1 ((\<Sum>(i, j)\<leftarrow>index_pairs 3.
             spec_resonance (three_store ([0, 1, 2] ! i)) (three_store ([0, 1, 2] ! j))) / 3
          + (2 / 10) * (1 - (9 / 50) / total_energy engine3))
     = 1 \<and>
   resonanceWith 0 (three_store 0) (three_store 0) = 4 / 5 \<and>
   spec_resonance (three_store 0) (three_store 0) = 1"
proof -
  have g: "generateTraces engine3 three_store (\<lambda>k. 0) =
     [\<lparr>path = [0, 1, 2], spent = 9 / 50, complete = False, score = Some (139 / 150)\<rparr>] \<and>
   min 1 ((\<Sum>(i, j)\<leftarrow>index_pairs 3.
             spec_resonance (three_store ([0, 1, 2] ! i)) (three_store ([0, 1, 2] ! j))) / 3
          + (2 / 10) * (1 - (9 / 50) / total_energy engine3))
     = 1"
    by (simp add: generateTraces_def three_search calculateTraceCoherence_def index_pairs_3
        index_pairs_3_numeral resonanceWith_penalised calculateDistancePenalty_def
        three_resonances engine3_fields)
  have r: "resonanceWith 0 (three_store 0) (three_store 0) = 4 / 5"
    by (simp add: resonanceWith_identical)
  have s: "spec_resonance (three_store 0) (three_store 0) = 1"
    by (simp add: spec_resonance_identical)
  from g r s show ?thesis by blast
qed

subsection \<open>Paths of the traces\<close>

lemma candidate_fresh:
  "c \<in> set (findSkipCandidates eng tok cur pth) \<Longrightarrow>
   fst c \<notin> set pth \<and> fst c \<in> set (tokens eng)"
  by (auto simp: findSkipCandidates_def Let_def)

text \<open>
  A trace of the search repeats no token and is not empty, and it has at most
  \<open>maxTraceLength + 1\<close> tokens: the search stops when the path \<^emph>\<open>before\<close> the current
  token has \<open>maxTraceLength\<close> tokens, and the current token is added then.
\<close>

lemma traceFromToken_path:
  "tr \<in> set (traceFromToken eng tok cur pth rem) \<Longrightarrow> distinct pth \<Longrightarrow> cur \<notin> set pth \<Longrightarrow>
   length pth \<le> maxTraceLength eng \<Longrightarrow>
   distinct (path tr) \<and> path tr \<noteq> [] \<and> length (path tr) \<le> Suc (maxTraceLength eng)"
proof (induction eng tok cur pth rem arbitrary: tr rule: traceFromToken.induct)
  case (1 eng tok currentToken pth remainingEnergy)
  let ?cs = "findSkipCandidates eng tok currentToken (pth @ [currentToken])"
  show ?case
  proof (cases "length pth \<ge> maxTraceLength eng \<or> remainingEnergy < 1 / 10")
    case True
    with "1.prems" show ?thesis by (subst (asm) traceFromToken.simps) auto
  next
    case stop: False
    show ?thesis
    proof (cases "?cs = []")
      case True
      with stop "1.prems" show ?thesis by (subst (asm) traceFromToken.simps) auto
    next
      case False
      with stop "1.prems"(1) obtain c where
        c: "c \<in> set (take (min (branchingFactor eng) (length ?cs)) ?cs)"
        and tr: "tr \<in> set (traceFromToken eng tok (fst c) (pth @ [currentToken])
                   (remainingEnergy - calculateEnergyCost (tok currentToken) (tok (fst c))))"
        by (subst (asm) traceFromToken.simps) auto
      from c have "c \<in> set ?cs" by (rule in_set_takeD)
      then have fresh: "fst c \<notin> set (pth @ [currentToken])" using candidate_fresh by blast
      have d: "distinct (pth @ [currentToken])" using "1.prems" by simp
      have l: "length (pth @ [currentToken]) \<le> maxTraceLength eng" using stop by simp
      show ?thesis
        using "1.IH"[OF stop False c tr d fresh l] .
    qed
  qed
qed

lemma prune_step_subset:
  "set (fst (fold (\<lambda>tr (pruned, seenPatterns).
                  let pat = g tr
                  in if pat \<in> set seenPatterns then (pruned, seenPatterns)
                     else if length (path tr) < 3 then (pruned, seenPatterns)
                     else (pruned @ [tr], seenPatterns @ [pat])) trs (p, s)))
     \<subseteq> set p \<union> {tr \<in> set trs. 3 \<le> length (path tr)}"
proof (induction trs arbitrary: p s)
  case Nil
  then show ?case by simp
next
  case (Cons a trs)
  show ?case
    using Cons.IH[of p s] Cons.IH[of "p @ [a]" "s @ [g a]"]
    by (auto simp: Let_def)
qed

lemma prune_step_seen:
  "set (snd (fold (\<lambda>tr (pruned, seenPatterns).
                  let pat = g tr
                  in if pat \<in> set seenPatterns then (pruned, seenPatterns)
                     else if length (path tr) < 3 then (pruned, seenPatterns)
                     else (pruned @ [tr], seenPatterns @ [pat])) trs (p, s)))
     \<subseteq> set s \<union> g ` set trs"
proof (induction trs arbitrary: p s)
  case Nil
  then show ?case by simp
next
  case (Cons a trs)
  show ?case
    using Cons.IH[of p s] Cons.IH[of "p @ [a]" "s @ [g a]"]
    by (auto simp: Let_def)
qed

lemma prune_step_mono:
  "set p \<subseteq> set (fst (fold (\<lambda>tr (pruned, seenPatterns).
                  let pat = g tr
                  in if pat \<in> set seenPatterns then (pruned, seenPatterns)
                     else if length (path tr) < 3 then (pruned, seenPatterns)
                     else (pruned @ [tr], seenPatterns @ [pat])) trs (p, s)))"
proof (induction trs arbitrary: p s)
  case Nil
  then show ?case by simp
next
  case (Cons a trs)
  show ?case
    using Cons.IH[of p s] Cons.IH[of "p @ [a]" "s @ [g a]"]
    by (auto simp: Let_def)
qed

lemma pruneTraces_subset:
  "set (pruneTraces tok trs) \<subseteq> {tr \<in> set trs. 3 \<le> length (path tr)}"
  using prune_step_subset[of "\<lambda>tr. join ''-'' (map (\<lambda>r. universal (tok r)) (path tr))"
      trs "[]" "[]"]
  by (simp add: pruneTraces_def)

lemma notin_image: "S \<subseteq> g ` A \<Longrightarrow> \<forall>u \<in> A. g u \<noteq> x \<Longrightarrow> x \<notin> S"
  by auto

text \<open>
  Pruning keeps a trace of at least three tokens when no trace before it has the same
  sequence of universal types.
\<close>

lemma pruneTraces_keeps_first:
  assumes "\<forall>u \<in> set pre. join ''-'' (map (\<lambda>r. universal (tok r)) (path u))
                          \<noteq> join ''-'' (map (\<lambda>r. universal (tok r)) (path t))"
    and "3 \<le> length (path t)"
  shows "t \<in> set (pruneTraces tok (pre @ t # post))"
proof -
  let ?g = "\<lambda>tr. join ''-'' (map (\<lambda>r. universal (tok r)) (path tr))"
  let ?f = "\<lambda>tr (pruned, seenPatterns).
                  let pat = ?g tr
                  in if pat \<in> set seenPatterns then (pruned, seenPatterns)
                     else if length (path tr) < 3 then (pruned, seenPatterns)
                     else (pruned @ [tr], seenPatterns @ [pat])"
  obtain p s where ps: "fold ?f pre ([], []) = (p, s)" by (cases "fold ?f pre ([], [])")
  have "set s \<subseteq> ?g ` set pre"
    using prune_step_seen[of ?g pre "[]" "[]"] ps by simp
  then have "?g t \<notin> set s" using assms(1) by (rule notin_image)
  then have "?f t (p, s) = (p @ [t], s @ [?g t])" using assms(2) by (simp add: Let_def)
  then have "fold ?f (pre @ t # post) ([], []) = fold ?f post (p @ [t], s @ [?g t])"
    using ps by simp
  moreover have "set (p @ [t]) \<subseteq> set (fst (fold ?f post (p @ [t], s @ [?g t])))"
    by (rule prune_step_mono)
  ultimately show ?thesis by (auto simp: pruneTraces_def)
qed

lemma map_path_scoreTraces: "map path (scoreTraces eng tok rnd trs) = map path trs"
  by (induction trs arbitrary: rnd) simp_all

lemma paths_generateTraces:
  "path ` set (generateTraces eng tok rnd) = path ` set (searchTraces eng tok)"
proof -
  have "path ` set (generateTraces eng tok rnd) =
        set (map path (scoreTraces eng tok rnd (searchTraces eng tok)))"
    by (simp add: generateTraces_def)
  then show ?thesis by (simp add: map_path_scoreTraces)
qed

text \<open>
  What holds of every trace that \<^verbatim>\<open>generateTraces\<close> returns: no token twice, at least
  three tokens, and at most \<open>maxTraceLength + 1\<close>.
\<close>

lemma generateTraces_paths:
  assumes "tr \<in> set (generateTraces eng tok rnd)"
  shows "distinct (path tr) \<and> 3 \<le> length (path tr) \<and>
         length (path tr) \<le> Suc (maxTraceLength eng)"
proof -
  from assms have "path tr \<in> path ` set (searchTraces eng tok)"
    using paths_generateTraces[of eng tok rnd] by blast
  then obtain u where u: "u \<in> set (searchTraces eng tok)" and pu: "path u = path tr" by auto
  from u pruneTraces_subset[of tok] have len: "3 \<le> length (path u)"
    and raw: "u \<in> set (concat (map (\<lambda>anchor. traceFromToken eng tok anchor [] (total_energy eng))
                  (findAnchors eng tok)))"
    unfolding searchTraces_def by blast+
  from raw obtain a where "u \<in> set (traceFromToken eng tok a [] (total_energy eng))" by auto
  from traceFromToken_path[OF this] len show ?thesis unfolding pu by simp
qed

lemma traceFromToken_nonempty:
  "0 < branchingFactor eng \<Longrightarrow> traceFromToken eng tok cur pth rem \<noteq> []"
proof (induction eng tok cur pth rem rule: traceFromToken.induct)
  case (1 eng tok currentToken pth remainingEnergy)
  let ?cs = "findSkipCandidates eng tok currentToken (pth @ [currentToken])"
  show ?case
  proof (cases "length pth \<ge> maxTraceLength eng \<or> remainingEnergy < 1 / 10")
    case True
    then show ?thesis by (subst traceFromToken.simps) auto
  next
    case stop: False
    show ?thesis
    proof (cases "?cs = []")
      case True
      with stop show ?thesis by (subst traceFromToken.simps) auto
    next
      case False
      then obtain c cs where cs: "?cs = c # cs" by (cases ?cs) auto
      have c: "c \<in> set (take (min (branchingFactor eng) (length ?cs)) ?cs)"
        using "1.prems" by (cases "branchingFactor eng") (simp_all add: cs)
      have "traceFromToken eng tok (fst c) (pth @ [currentToken])
              (remainingEnergy - calculateEnergyCost (tok currentToken) (tok (fst c))) \<noteq> []"
        using "1.IH"[OF stop False c "1.prems"] .
      with c stop False show ?thesis
        by (subst traceFromToken.simps) auto
    qed
  qed
qed

subsection \<open>The search on eleven equal tokens\<close>

lemma dims_plain:
  "dims plain_token =
     \<lparr>semantic = 1 / 8, temporal = 1 / 8, causal = 1 / 8, emotional = 1 / 8,
      relational = 1 / 8, probability = 1 / 8, energy = 1 / 8, coherence = 1 / 8\<rparr>"
  by (simp add: plain_token_def new_token_def normalize_half)

lemma engine11_fields:
  "maxTraceLength engine11 = 10" "branchingFactor engine11 = 3" "total_energy engine11 = 1"
  "tokens engine11 = [0..<11]" "threshold engine11 = 3 / 10"
  by (simp_all add: engine11_def new_engine_def)

text \<open>Every token is a candidate of every other, with the score 951/1600, at no cost.\<close>

lemma score_plain: "skipScore engine11 plain_token plain_token = 951 / 1600"
  by (simp add: skipScore_def causalStrength_def emotionalResonance_def semanticDistance_def
      temporalFlow_def dims_plain engine11_def new_engine_def Let_def)

lemma cost_plain: "calculateEnergyCost (plain_store a) (plain_store b) = 0"
  by (simp add: calculateEnergyCost_def semanticDistance_def plain_store_def Let_def)

lemma filter_notin_upt: "m \<le> n \<Longrightarrow> filter (\<lambda>r. r \<notin> set [0..<m]) [0..<n] = [m..<n]"
proof -
  assume "m \<le> n"
  then have "[0..<n] = [0..<m] @ [m..<n]"
    by (metis le_add_diff_inverse upt_add_eq_append zero_le)
  then show ?thesis by (simp add: filter_empty_conv[THEN iffD2])
qed

text \<open>
  With the tokens 0 to \<open>k\<close> on the path, the candidates are the tokens after \<open>k\<close>, in
  the order of the array: the scores are equal and the sort is stable.
\<close>

lemma candidates_plain:
  "k < 11 \<Longrightarrow>
   findSkipCandidates engine11 plain_store k [0..<Suc k] =
     map (\<lambda>r. (r, 951 / 1600)) [Suc k..<11]"
proof -
  assume k: "k < 11"
  have f: "filter (\<lambda>r. r \<notin> set [0..<Suc k] \<and> (3::real) / 10 < 951 / 1600) [0..<11]
           = [Suc k..<11]"
    using filter_notin_upt[of "Suc k" 11] k by simp
  have "sorted (map (\<lambda>r. - (951 / (1600::real))) xs)" for xs :: "nat list"
    by (induction xs) auto
  then have "sorted (map (\<lambda>c. - snd c) (map (\<lambda>r. (r, 951 / (1600::real))) [Suc k..<11]))"
    by (simp add: comp_def)
  then have "sort_key (\<lambda>c. - snd c) (map (\<lambda>r. (r, 951 / (1600::real))) [Suc k..<11]) =
             map (\<lambda>r. (r, 951 / 1600)) [Suc k..<11]"
    by (rule sort_key_id_if_sorted)
  then show ?thesis
    unfolding findSkipCandidates_def Let_def plain_store_def score_plain engine11_fields f .
qed

text \<open>
  The first trace found from the token \<open>k\<close>, once the tokens before it are on the path,
  runs through all eleven tokens: the search follows the first candidate each time, and
  stops at the token 10, when the path before it has \<open>maxTraceLength = 10\<close> tokens.
\<close>

lemma plain_chain:
  "k \<le> 10 \<Longrightarrow>
   hd (traceFromToken engine11 plain_store k [0..<k] 1) =
     \<lparr>path = [0..<11], spent = 0, complete = True, score = None\<rparr>"
proof (induction k rule: inc_induct)
  case base
  have "[0..<10] @ [10] = [0..<11::nat]" by (simp add: upt_rec)
  then show ?case
    by (subst traceFromToken.simps) (simp add: engine11_fields)
next
  case (step n)
  have n: "n < 11" using step.hyps by simp
  have cs: "findSkipCandidates engine11 plain_store n ([0..<n] @ [n]) =
            (Suc n, 951 / 1600) # map (\<lambda>r. (r, 951 / 1600)) [Suc (Suc n)..<11]"
    using candidates_plain[OF n] step.hyps by (simp add: upt_conv_Cons)
  have ne: "traceFromToken engine11 plain_store (Suc n) [0..<Suc n] 1 \<noteq> []"
    by (rule traceFromToken_nonempty) (simp add: engine11_fields)
  show ?case
    using step.hyps step.IH ne
    by (subst traceFromToken.simps)
       (simp add: cs engine11_fields cost_plain min_def)
qed

lemma anchors_plain: "findAnchors engine11 plain_store = [0, Suc 0, 2, 3]"
proof -
  have "sort_key (\<lambda>r. - energy (dims (plain_store r))) [0..<11] = [0..<11]"
    by (simp add: plain_store_def sort_key_const)
  then show ?thesis
    by (simp add: findAnchors_def engine11_fields Let_def) (simp add: upt_rec)
qed

lemma eleven_tokens_found:
  "\<lparr>path = [0..<11], spent = 0, complete = True, score = None\<rparr>
     \<in> set (searchTraces engine11 plain_store)"
proof -
  let ?t = "\<lparr>path = [0..<11], spent = 0, complete = True, score = None\<rparr>"
  let ?first = "traceFromToken engine11 plain_store 0 [] 1"
  let ?post = "tl ?first @
     concat (map (\<lambda>anchor. traceFromToken engine11 plain_store anchor [] 1) [Suc 0, 2, 3])"
  have ne: "?first \<noteq> []"
    by (rule traceFromToken_nonempty) (simp add: engine11_fields)
  have "hd ?first = ?t" using plain_chain[of 0] by simp
  with ne have first: "?first = ?t # tl ?first" by (metis list.collapse)
  have raw:
    "concat (map (\<lambda>anchor. traceFromToken engine11 plain_store anchor [] (total_energy engine11))
               (findAnchors engine11 plain_store)) = [] @ ?t # ?post"
    using first by (simp add: anchors_plain engine11_fields)
  have "?t \<in> set (pruneTraces plain_store ([] @ ?t # ?post))"
    by (rule pruneTraces_keeps_first) simp_all
  then show ?thesis unfolding searchTraces_def raw .
qed

text \<open>
  Claim C2. With the default parameters every trace that \<^verbatim>\<open>generateTraces\<close> returns
  is to have at most \<open>maxTraceLength = 10\<close> tokens, none of them twice, and is not
  empty. On eleven tokens with equal dimensions, whatever the random numbers, the engine
  returns the trace through all eleven tokens: one more than \<open>maxTraceLength\<close>, which
  the constructor documents as the maximum length of a single trace. (No trace repeats a
  token or is empty, and none has more than \<open>maxTraceLength + 1\<close> tokens: lemma
  \<open>generateTraces_paths\<close>.)
\<close>

theorem trace_longer_than_maxTraceLength:
  "[0, 1, 2, 3, 4, 5, 6, 7, 8, 9, 10] \<in> path ` set (generateTraces engine11 plain_store rnd) \<and>
   maxTraceLength engine11 = 10 \<and> threshold engine11 = 3 / 10 \<and>
   branchingFactor engine11 = 3 \<and>
   length [0, 1, 2, 3, 4, 5, 6, 7, 8, 9, 10::nat] = 11"
proof -
  have "[0, 1, 2, 3, 4, 5, 6, 7, 8, 9, 10] = [0..<11::nat]" by (simp add: upt_rec)
  then have "[0, 1, 2, 3, 4, 5, 6, 7, 8, 9, 10] =
     path \<lparr>path = [0..<11], spent = 0, complete = True, score = None\<rparr>" by simp
  also have "\<dots> \<in> path ` set (searchTraces engine11 plain_store)"
    using eleven_tokens_found by (rule imageI)
  finally show ?thesis
    by (simp add: paths_generateTraces engine11_fields)
qed

end
